theory Spec2Isabelle
  imports Main
begin

section \<open>Python values\<close>

text \<open>
  The events, interrupt payloads and decisions of \<^verbatim>\<open>cli.py\<close> are JSON-like Python values
  (\<^verbatim>\<open>Dict[str, Any]\<close>). A dictionary is an association list in insertion order, read
  with \<open>map_of\<close>; a Python dictionary has each key once. Strings are sequences of code
  points below 256. Floating point numbers are not part of the model.
\<close>

datatype pyval =
    PNone
  | PBool bool
  | PInt int
  | PStr string
  | PList "pyval list"
  | PDict "(string \<times> pyval) list"

type_synonym pydict = "(string \<times> pyval) list"

text \<open>
  The exceptions that the modelled code can raise. \<open>Abort\<close> is what \<^verbatim>\<open>click.prompt\<close>
  raises at end of input, \<open>SystemExit\<close> is what \<^verbatim>\<open>sys.exit\<close> raises,
  \<open>NotRenderableError\<close> is what \<^verbatim>\<open>Table.add_row\<close> of the rendering library raises for a
  cell that is neither a string, nor \<^verbatim>\<open>None\<close>, nor a renderable object,
  \<open>MarkupError\<close> is what \<^verbatim>\<open>console.print\<close> raises for a text whose console markup it
  cannot parse, \<open>JSONDecodeError\<close> (with its message) and \<open>RecursionError\<close> are what
  \<^verbatim>\<open>json.loads\<close> raises, and \<open>UnboundLocalError\<close> is raised when a local variable of a
  function is read before a statement has bound it.
\<close>

datatype py_exception =
    KeyError string
  | TypeError
  | AttributeError
  | NotRenderableError
  | MarkupError
  | JSONDecodeError string
  | RecursionError
  | Abort
  | SystemExit int
  | UnboundLocalError string

text \<open>\<^verbatim>\<open>k in d\<close> and \<^verbatim>\<open>d.get(k, default)\<close> on a dictionary.\<close>

definition has_key :: "pydict \<Rightarrow> string \<Rightarrow> bool" where
  "has_key d k = (map_of d k \<noteq> None)"

definition dict_get :: "pydict \<Rightarrow> string \<Rightarrow> pyval \<Rightarrow> pyval" where
  "dict_get d k dflt = (case map_of d k of None \<Rightarrow> dflt | Some v \<Rightarrow> v)"

text \<open>
  \<^verbatim>\<open>x.get(k, default)\<close> on any value: only a dictionary has the attribute \<^verbatim>\<open>get\<close>.
\<close>

fun py_get :: "pyval \<Rightarrow> string \<Rightarrow> pyval \<Rightarrow> py_exception + pyval" where
  "py_get (PDict d) k dflt = Inr (dict_get d k dflt)"
| "py_get _ k dflt = Inl AttributeError"

text \<open>
  \<^verbatim>\<open>x[k]\<close> with a string key \<open>k\<close>: a dictionary without the key raises \<^verbatim>\<open>KeyError\<close>; a
  string or a list wants an integer index, and \<^verbatim>\<open>None\<close>, booleans and integers are not
  subscriptable (\<^verbatim>\<open>TypeError\<close> in both cases).
\<close>

fun py_subscript :: "pyval \<Rightarrow> string \<Rightarrow> py_exception + pyval" where
  "py_subscript (PDict d) k = (case map_of d k of None \<Rightarrow> Inl (KeyError k) | Some v \<Rightarrow> Inr v)"
| "py_subscript _ k = Inl TypeError"

text \<open>
  Iteration (\<^verbatim>\<open>for x in v\<close>, \<^verbatim>\<open>enumerate(v)\<close>): a list yields its elements, a string
  its characters as one-character strings, a dictionary its keys; anything else is not
  iterable.
\<close>

fun py_iter :: "pyval \<Rightarrow> py_exception + pyval list" where
  "py_iter (PList xs) = Inr xs"
| "py_iter (PStr s) = Inr (map (\<lambda>c. PStr [c]) s)"
| "py_iter (PDict d) = Inr (map (\<lambda>kv. PStr (fst kv)) d)"
| "py_iter _ = Inl TypeError"

text \<open>Truth value of a value in a condition (\<^verbatim>\<open>if v:\<close>).\<close>

fun py_truthy :: "pyval \<Rightarrow> bool" where
  "py_truthy PNone = False"
| "py_truthy (PBool b) = b"
| "py_truthy (PInt i) = (i \<noteq> 0)"
| "py_truthy (PStr s) = (s \<noteq> [])"
| "py_truthy (PList xs) = (xs \<noteq> [])"
| "py_truthy (PDict d) = (d \<noteq> [])"

text \<open>Lists and dictionaries are unhashable: they cannot be used as a dictionary key.\<close>

fun py_hashable :: "pyval \<Rightarrow> bool" where
  "py_hashable (PList xs) = False"
| "py_hashable (PDict d) = False"
| "py_hashable _ = True"

text \<open>
  \<^verbatim>\<open>sep.join(v)\<close>: \<open>v\<close> must be iterable and each of its items a string.
\<close>

fun str_items :: "pyval list \<Rightarrow> py_exception + string list" where
  "str_items [] = Inr []"
| "str_items (PStr s # vs) = (case str_items vs of Inl e \<Rightarrow> Inl e | Inr ss \<Rightarrow> Inr (s # ss))"
| "str_items (_ # vs) = Inl TypeError"

fun intersperse :: "'a list \<Rightarrow> 'a list list \<Rightarrow> 'a list" where
  "intersperse sep [] = []"
| "intersperse sep [x] = x"
| "intersperse sep (x # y # ys) = x @ sep @ intersperse sep (y # ys)"

definition str_join :: "string \<Rightarrow> pyval \<Rightarrow> py_exception + string" where
  "str_join sep v =
     (case py_iter v of
        Inl e \<Rightarrow> Inl e
      | Inr items \<Rightarrow> (case str_items items of Inl e \<Rightarrow> Inl e | Inr ss \<Rightarrow> Inr (intersperse sep ss)))"

section \<open>The JSON encoder\<close>

text \<open>
  \<^verbatim>\<open>json.dumps(v, indent=n)\<close> of the standard library, for the values above. Keys are
  written in the order the dictionary holds them (\<^verbatim>\<open>sort_keys\<close> is off), the item
  separator is a comma followed by a new line and the indentation of the current level,
  the key separator is a colon and a space, an empty list or dictionary is written
  without a line break, and every character outside the printable ASCII range is escaped.
\<close>

definition hex_digit :: "nat \<Rightarrow> char" where
  "hex_digit n = (''0123456789abcdef'' ! (n mod 16))"

definition json_escape_char :: "char \<Rightarrow> string" where
  "json_escape_char c =
     (if c = CHR 0x22 then [CHR 0x5C, CHR 0x22]
      else if c = CHR 0x5C then [CHR 0x5C, CHR 0x5C]
      else if c = CHR 0x0A then [CHR 0x5C, CHR ''n'']
      else if c = CHR 0x0D then [CHR 0x5C, CHR ''r'']
      else if c = CHR 0x09 then [CHR 0x5C, CHR ''t'']
      else if c = CHR 0x08 then [CHR 0x5C, CHR ''b'']
      else if c = CHR 0x0C then [CHR 0x5C, CHR ''f'']
      else if of_char c < (32::nat) \<or> (126::nat) < of_char c
        then [CHR 0x5C, CHR ''u'', CHR ''0'', CHR ''0'',
              hex_digit (of_char c div 16), hex_digit (of_char c)]
      else [c])"

definition json_string :: "string \<Rightarrow> string" where
  "json_string s = [CHR 0x22] @ concat (map json_escape_char s) @ [CHR 0x22]"

fun dec_nat :: "nat \<Rightarrow> string" where
  "dec_nat n = (if n < 10 then [hex_digit n] else dec_nat (n div 10) @ [hex_digit (n mod 10)])"

definition dec_int :: "int \<Rightarrow> string" where
  "dec_int i = (if i < 0 then CHR ''-'' # dec_nat (nat (- i)) else dec_nat (nat i))"

definition newline_indent :: "nat \<Rightarrow> nat \<Rightarrow> string" where
  "newline_indent ind lvl = CHR 0x0A # replicate (ind * lvl) CHR '' ''"

fun json_encode :: "nat \<Rightarrow> nat \<Rightarrow> pyval \<Rightarrow> string"
  and json_items :: "nat \<Rightarrow> nat \<Rightarrow> pyval list \<Rightarrow> string list"
  and json_members :: "nat \<Rightarrow> nat \<Rightarrow> (string \<times> pyval) list \<Rightarrow> string list" where
  "json_encode ind lvl PNone = ''null''"
| "json_encode ind lvl (PBool b) = (if b then ''true'' else ''false'')"
| "json_encode ind lvl (PInt i) = dec_int i"
| "json_encode ind lvl (PStr s) = json_string s"
| "json_encode ind lvl (PList xs) =
     (if xs = [] then ''[]''
      else ''['' @ newline_indent ind (Suc lvl)
           @ intersperse ('','' @ newline_indent ind (Suc lvl)) (json_items ind (Suc lvl) xs)
           @ newline_indent ind lvl @ '']'')"
| "json_encode ind lvl (PDict d) =
     (if d = [] then ''{}''
      else ''{'' @ newline_indent ind (Suc lvl)
           @ intersperse ('','' @ newline_indent ind (Suc lvl)) (json_members ind (Suc lvl) d)
           @ newline_indent ind lvl @ ''}'')"
| "json_items ind lvl [] = []"
| "json_items ind lvl (x # xs) = json_encode ind lvl x # json_items ind lvl xs"
| "json_members ind lvl [] = []"
| "json_members ind lvl ((k, v) # d) =
     (json_string k @ '': '' @ json_encode ind lvl v) # json_members ind lvl d"

definition json_dumps :: "pyval \<Rightarrow> nat \<Rightarrow> string" where
  "json_dumps v ind = json_encode ind 0 v"

section \<open>The console\<close>

text \<open>
  The module prints through one \<^verbatim>\<open>rich\<close> console. The model records what is handed to
  \<^verbatim>\<open>console.print\<close>, in order; how the library lays it out on the terminal is outside
  the model. A formatted string is kept as its fragments: literal text, a value
  interpolated by an f-string (\<open>Fmt v\<close> stands for \<^verbatim>\<open>str(v)\<close>) and the non-ASCII symbols
  of the source.
\<close>

datatype glyph = Hourglass | Arrows | CheckBox | QuestionMark | WarningSign | CheckMark

datatype frag = Lit string | Fmt pyval | Sym glyph

type_synonym rich_text = "frag list"

datatype cell = CellText rich_text | CellValue pyval | CellSyntax string string string

record table =
  title :: rich_text
  show_header :: bool
  columns :: "(string \<times> string) list"
  rows :: "cell list list"

record panel =
  content :: rich_text
  panel_title :: rich_text
  border_style :: string

datatype renderable = RText rich_text | RValue pyval | RTable table | RPanel panel

datatype printed = Print renderable string

definition console_print :: "renderable \<Rightarrow> printed" where
  "console_print r = Print r [CHR 0x0A]"

text \<open>
  The library reads every string it prints as console markup: the text of
  \<^verbatim>\<open>console.print\<close>, the text of a panel, the title and the string cells of a table. For
  a string it cannot parse, for instance one with a closing tag such as \<^verbatim>\<open>[/tmp/x]\<close> or
  \<^verbatim>\<open>[/dim]\<close> that matches no open tag, \<^verbatim>\<open>console.print\<close> raises \<^verbatim>\<open>MarkupError\<close> and prints
  nothing. Which strings those are is decided inside the library, so it is a parameter
  of the model: \<open>bad_markup r\<close> says that \<^verbatim>\<open>console.print\<close> raises \<^verbatim>\<open>MarkupError\<close> for the
  renderable \<open>r\<close>. Every print of a text that holds data of an event goes through
  \<open>console_print_data\<close>. The fixed texts of the module (the completion marker, the menu
  of the prompt) hold matched tags only, and the report of a JSON error holds a message of
  the decoder, which is one of its fixed texts with a position; they are printed as they
  are.
\<close>

type_synonym markup_check = "renderable \<Rightarrow> bool"

definition console_print_data ::
  "markup_check \<Rightarrow> renderable \<Rightarrow> string \<Rightarrow> printed list \<times> py_exception option" where
  "console_print_data bad_markup r end_text =
     (if bad_markup r then ([], Some MarkupError) else ([Print r end_text], None))"

definition Table :: "rich_text \<Rightarrow> bool \<Rightarrow> table" where
  "Table t h = \<lparr>title = t, show_header = h, columns = [], rows = []\<rparr>"

definition add_column :: "string \<Rightarrow> string \<Rightarrow> table \<Rightarrow> table" where
  "add_column header style t = t\<lparr>columns := columns t @ [(header, style)]\<rparr>"

text \<open>
  \<^verbatim>\<open>Table.add_row\<close> takes strings, \<^verbatim>\<open>None\<close> (an empty cell) and renderable objects, and
  raises \<^verbatim>\<open>NotRenderableError\<close> for any other value.
\<close>

fun cell_ok :: "cell \<Rightarrow> bool" where
  "cell_ok (CellText t) = True"
| "cell_ok (CellSyntax code lexer theme) = True"
| "cell_ok (CellValue (PStr s)) = True"
| "cell_ok (CellValue PNone) = True"
| "cell_ok (CellValue _) = False"

definition add_row :: "cell list \<Rightarrow> table \<Rightarrow> py_exception + table" where
  "add_row cells t =
     (if list_all cell_ok cells then Inr (t\<lparr>rows := rows t @ [cells]\<rparr>)
      else Inl NotRenderableError)"

text \<open>Sequencing of steps that may raise: the first exception ends the computation.\<close>

definition bind_exc :: "py_exception + 'a \<Rightarrow> ('a \<Rightarrow> py_exception + 'b) \<Rightarrow> py_exception + 'b" where
  "bind_exc m f = (case m of Inl e \<Rightarrow> Inl e | Inr x \<Rightarrow> f x)"

section \<open>\<^verbatim>\<open>print_chunk\<close>\<close>

text \<open>The body of the loop over \<^verbatim>\<open>chunk["tool_calls"]\<close>, up to the finished table.\<close>

definition tool_call_table :: "pyval \<Rightarrow> bool \<Rightarrow> pyval \<Rightarrow> py_exception + table" where
  "tool_call_table node verbose tool_call =
     bind_exc (py_subscript tool_call ''name'') (\<lambda>name0.
     bind_exc (py_get tool_call ''id'' (PStr ''N/A'')) (\<lambda>ident.
     bind_exc (add_row [CellText [Lit ''ID''], CellValue ident]
                 (Table [Lit ''Tool Call: '', Fmt name0] False)) (\<lambda>t1.
     bind_exc (py_subscript tool_call ''name'') (\<lambda>name1.
     bind_exc (add_row [CellText [Lit ''Name''], CellValue name1] t1) (\<lambda>t2.
     bind_exc (py_get tool_call ''args'' (PDict [])) (\<lambda>args.
     bind_exc (add_row [CellText [Lit ''Args''],
                        CellSyntax (json_dumps args 2) ''json'' ''monokai''] t2) (\<lambda>t3.
     if verbose then add_row [CellText [Lit ''Node''], CellValue node] t3 else Inr t3)))))))"

text \<open>
  The loop itself: each table is printed as soon as it is built, so the tables of the
  calls before a failing one stay printed.
\<close>

fun print_tool_calls ::
  "markup_check \<Rightarrow> pyval \<Rightarrow> bool \<Rightarrow> pyval list \<Rightarrow> printed list \<times> py_exception option" where
  "print_tool_calls bad_markup node verbose [] = ([], None)"
| "print_tool_calls bad_markup node verbose (tool_call # rest) =
     (case tool_call_table node verbose tool_call of
        Inl e \<Rightarrow> ([], Some e)
      | Inr t \<Rightarrow>
          (case console_print_data bad_markup (RTable t) [CHR 0x0A] of
             (out, Some e) \<Rightarrow> (out, Some e)
           | (out, None) \<Rightarrow>
               (case print_tool_calls bad_markup node verbose rest of
                  (later, r) \<Rightarrow> (out @ later, r))))"

text \<open>
  The lookup of the status icon: the status is the key of a dictionary lookup, so it has
  to be hashable; a status outside the three known ones gets the question mark.
\<close>

definition status_icon :: "pyval \<Rightarrow> py_exception + glyph" where
  "status_icon st =
     (if \<not> py_hashable st then Inl TypeError
      else if st = PStr ''pending'' then Inr Hourglass
      else if st = PStr ''in_progress'' then Inr Arrows
      else if st = PStr ''completed'' then Inr CheckBox
      else Inr QuestionMark)"

definition todo_row :: "pyval \<Rightarrow> table \<Rightarrow> py_exception + table" where
  "todo_row todo t =
     bind_exc (py_get todo ''status'' (PStr ''pending'')) (\<lambda>st0.
     bind_exc (status_icon st0) (\<lambda>icon.
     bind_exc (py_get todo ''status'' (PStr ''pending'')) (\<lambda>st1.
     bind_exc (py_get todo ''content'' (PStr ''N/A'')) (\<lambda>task.
     add_row [CellText [Sym icon, Lit '' '', Fmt st1], CellValue task] t))))"

fun todo_rows :: "pyval list \<Rightarrow> table \<Rightarrow> py_exception + table" where
  "todo_rows [] t = Inr t"
| "todo_rows (todo # rest) t = bind_exc (todo_row todo t) (todo_rows rest)"

text \<open>
  The lines of one action request and of one review configuration; \<open>i\<close> is the index that
  \<^verbatim>\<open>enumerate\<close> gives.
\<close>

definition action_lines :: "nat \<Rightarrow> pyval \<Rightarrow> py_exception + rich_text list" where
  "action_lines i action =
     bind_exc (py_subscript action ''tool'') (\<lambda>tool.
     bind_exc (py_subscript action ''tool_call_id'') (\<lambda>call_id.
     bind_exc (py_get action ''description'' PNone) (\<lambda>descr.
     bind_exc (if py_truthy descr
               then bind_exc (py_subscript action ''description'')
                      (\<lambda>d. Inr [[Lit ''   Description: '', Fmt d]])
               else Inr []) (\<lambda>descr_lines.
     bind_exc (py_get action ''args'' (PDict [])) (\<lambda>args.
     Inr ([[Lit [CHR 0x0A], Fmt (PInt (int i + 1)), Lit ''. Tool: '', Fmt tool],
           [Lit ''   ID: '', Fmt call_id]]
          @ descr_lines
          @ [[Lit ''   Args: '', Lit (json_dumps args 6)]]))))))"

fun action_requests_lines :: "nat \<Rightarrow> pyval list \<Rightarrow> py_exception + rich_text list" where
  "action_requests_lines i [] = Inr []"
| "action_requests_lines i (action # rest) =
     bind_exc (action_lines i action) (\<lambda>ls.
     bind_exc (action_requests_lines (Suc i) rest) (\<lambda>others. Inr (ls @ others)))"

definition config_line :: "nat \<Rightarrow> pyval \<Rightarrow> py_exception + rich_text" where
  "config_line i config =
     bind_exc (py_get config ''allowed_decisions'' (PList [])) (\<lambda>allowed.
     bind_exc (str_join '', '' allowed) (\<lambda>joined.
     Inr [Lit [CHR 0x0A], Fmt (PInt (int i + 1)), Lit ''. Allowed decisions: '', Lit joined]))"

fun review_configs_lines :: "nat \<Rightarrow> pyval list \<Rightarrow> py_exception + rich_text list" where
  "review_configs_lines i [] = Inr []"
| "review_configs_lines i (config # rest) =
     bind_exc (config_line i config) (\<lambda>l.
     bind_exc (review_configs_lines (Suc i) rest) (\<lambda>others. Inr (l # others)))"

text \<open>The \<^verbatim>\<open>interrupt\<close> branch up to the list \<^verbatim>\<open>panel_content\<close>.\<close>

definition interrupt_panel_content :: "pydict \<Rightarrow> py_exception + rich_text list" where
  "interrupt_panel_content chunk =
     (let interrupt_data = dict_get chunk ''interrupt'' (PDict []) in
      bind_exc (py_get interrupt_data ''action_requests'' (PList [])) (\<lambda>action_requests.
      bind_exc (py_get interrupt_data ''review_configs'' (PList [])) (\<lambda>review_configs.
      bind_exc (if py_truthy action_requests
                then bind_exc (py_iter action_requests) (\<lambda>actions.
                     bind_exc (action_requests_lines 0 actions) (\<lambda>ls.
                     Inr ([Lit ''[bold yellow]Action Requests:[/bold yellow]''] # ls)))
                else Inr []) (\<lambda>part1.
      bind_exc (if py_truthy review_configs
                then bind_exc (py_iter review_configs) (\<lambda>configs.
                     bind_exc (review_configs_lines 0 configs) (\<lambda>ls.
                     Inr ([Lit (CHR 0x0A # ''[bold cyan]Review Configs:[/bold cyan]'')] # ls)))
                else Inr []) (\<lambda>part2.
      Inr (part1 @ part2))))))"

text \<open>
  \<^verbatim>\<open>print_chunk(chunk, verbose)\<close>: what it prints, and the exception it raises if it
  raises one. An exception of \<^verbatim>\<open>console.print\<close> leaves the function like any other.
\<close>

definition print_chunk ::
  "markup_check \<Rightarrow> pydict \<Rightarrow> bool \<Rightarrow> printed list \<times> py_exception option" where
  "print_chunk bad_markup chunk verbose =
     (let status = dict_get chunk ''status'' PNone in
      if status = PStr ''streaming'' then
        (if has_key chunk ''chunk'' then
           (let text = dict_get chunk ''chunk'' PNone;
                node = dict_get chunk ''node'' (PStr ''unknown'')
            in if verbose
               then console_print_data bad_markup
                      (RText [Lit ''[dim]['', Fmt node, Lit ''][/dim] '', Fmt text]) [CHR 0x0A]
               else console_print_data bad_markup (RValue text) [])
         else if has_key chunk ''tool_calls'' then
           (let node = dict_get chunk ''node'' (PStr ''unknown'') in
            case py_iter (dict_get chunk ''tool_calls'' PNone) of
              Inl e \<Rightarrow> ([], Some e)
            | Inr tool_calls \<Rightarrow> print_tool_calls bad_markup node verbose tool_calls)
         else if has_key chunk ''todo_list'' then
           (case bind_exc (py_iter (dict_get chunk ''todo_list'' PNone)) (\<lambda>todos.
                   todo_rows todos
                     (add_column ''Task'' ''white''
                       (add_column ''Status'' ''cyan'' (Table [Lit ''Todo List''] True)))) of
              Inl e \<Rightarrow> ([], Some e)
            | Inr t \<Rightarrow> console_print_data bad_markup (RTable t) [CHR 0x0A])
         else ([], None))
      else if status = PStr ''interrupt'' then
        (case interrupt_panel_content chunk of
           Inl e \<Rightarrow> ([], Some e)
         | Inr panel_content \<Rightarrow>
             console_print_data bad_markup
               (RPanel \<lparr>content = intersperse [Lit [CHR 0x0A]] panel_content,
                        panel_title = [Sym WarningSign, Lit ''  Interrupt''],
                        border_style = ''yellow''\<rparr>) [CHR 0x0A])
      else if status = PStr ''complete'' then
        ([console_print (RText [Lit [CHR 0x0A], Lit ''[bold green]'', Sym CheckMark,
                                Lit '' Complete[/bold green]''])], None)
      else if status = PStr ''error'' then
        (let error_msg = dict_get chunk ''error'' (PStr ''Unknown error'') in
         console_print_data bad_markup
           (RPanel \<lparr>content = [Lit ''[bold red]'', Fmt error_msg, Lit ''[/bold red]''],
                    panel_title = [Lit ''Error''],
                    border_style = ''red''\<rparr>) [CHR 0x0A])
      else ([], None))"

section \<open>The collaborators of the driver\<close>

text \<open>
  Modelled from the spec: \<^verbatim>\<open>prepare_agent_input\<close> of \<^verbatim>\<open>langgraph_utils_cli.utils\<close> is not
  among the sources. The spec describes its result, the run input, as either a fresh
  message or a decision batch (an ordered sequence of decisions), built from the keyword
  argument \<^verbatim>\<open>message\<close> or \<^verbatim>\<open>decisions\<close>.
\<close>

datatype run_input = FreshMessage string | DecisionBatch "pyval list"

definition prepare_agent_input_message :: "string \<Rightarrow> run_input" where
  "prepare_agent_input_message message = FreshMessage message"

definition prepare_agent_input_decisions :: "pyval list \<Rightarrow> run_input" where
  "prepare_agent_input_decisions decisions = DecisionBatch decisions"

text \<open>
  The graph engine behind \<^verbatim>\<open>stream_graph_updates\<close> and \<^verbatim>\<open>astream_graph_updates\<close> is
  external and keeps the paused run between calls. It is a parameter of the drivers: a
  function from the arguments of the call and the state \<open>'w\<close> of the engine to the events
  of this pass and the next state. A pass is a finite list of events; a stream that
  never ends or that fails while it is read is outside the model.
\<close>

type_synonym ('g, 'c, 'w) engine =
  "'g \<Rightarrow> run_input \<Rightarrow> 'c option \<Rightarrow> string \<Rightarrow> 'w \<Rightarrow> pydict list \<times> 'w"

text \<open>
  \<^verbatim>\<open>json.loads\<close> is a parameter as well: it gives the parsed value or the exception it
  raises, which is \<^verbatim>\<open>JSONDecodeError\<close> with its message for most texts that are not valid
  JSON, and \<^verbatim>\<open>RecursionError\<close> for a text that is nested too deeply, such as a thousand
  opening brackets.
\<close>

type_synonym json_loads = "string \<Rightarrow> py_exception + pyval"

text \<open>
  The operator at the terminal: the values that the calls of \<^verbatim>\<open>click.prompt\<close> return, in
  order, one list for the integer prompt and one for the text prompt. At the end of the
  input \<^verbatim>\<open>click.prompt\<close> raises \<^verbatim>\<open>Abort\<close>.
\<close>

record operator =
  choices :: "int list"
  texts :: "string list"

text \<open>
  What a run does, in order: a call of the engine with its input, a value printed on the
  console, a call of \<^verbatim>\<open>click.prompt\<close> with its prompt text.
\<close>

datatype effect = EngineStream run_input | Console printed | ClickPrompt string

definition say :: "string \<Rightarrow> effect" where
  "say s = Console (console_print (RText [Lit s]))"

section \<open>\<^verbatim>\<open>handle_interrupt_input\<close>\<close>

text \<open>
  The statement \<^verbatim>\<open>except json.JSONDecodeError\<close> catches that exception only; any other
  exception of \<^verbatim>\<open>json.loads\<close> leaves the function.
\<close>

definition menu :: "effect list" where
  "menu =
     [say (CHR 0x0A # ''[bold]How would you like to proceed?[/bold]''),
      say ''1. Approve all actions'',
      say ''2. Reject all actions'',
      say ''3. Provide custom decision (JSON)'',
      say ''4. Exit'',
      ClickPrompt ''Enter your choice'']"

definition ask_json :: "effect list" where
  "ask_json =
     [say (''Enter your decision as JSON (e.g., {'' @ [CHR 0x27] @ ''type'' @ [CHR 0x27]
           @ '': '' @ [CHR 0x27] @ ''approve'' @ [CHR 0x27] @ ''}):''),
      ClickPrompt ''Decision JSON'']"

definition handle_interrupt_input ::
  "json_loads \<Rightarrow> pyval \<Rightarrow> operator \<Rightarrow> effect list \<times> (py_exception + pyval) \<times> operator" where
  "handle_interrupt_input loads interrupt_data op =
     (case bind_exc (py_get interrupt_data ''action_requests'' (PList [])) (\<lambda>action_requests.
           py_get interrupt_data ''review_configs'' (PList [])) of
        Inl e \<Rightarrow> ([], Inl e, op)
      | Inr review_configs \<Rightarrow>
          (case choices op of
             [] \<Rightarrow> (menu, Inl Abort, op)
           | choice # cs \<Rightarrow>
               (let op1 = op\<lparr>choices := cs\<rparr> in
                if choice = 1 then (menu, Inr (PDict [(''type'', PStr ''approve'')]), op1)
                else if choice = 2 then (menu, Inr (PDict [(''type'', PStr ''reject'')]), op1)
                else if choice = 3 then
                  (case texts op1 of
                     [] \<Rightarrow> (menu @ ask_json, Inl Abort, op1)
                   | json_str # ts \<Rightarrow>
                       (let op2 = op1\<lparr>texts := ts\<rparr> in
                        case loads json_str of
                          Inr decision \<Rightarrow> (menu @ ask_json, Inr decision, op2)
                        | Inl (JSONDecodeError e) \<Rightarrow>
                            (menu @ ask_json
                               @ [Console (console_print
                                    (RText [Lit ''[red]Invalid JSON: '', Lit e, Lit ''[/red]'']))],
                             Inr (PDict [(''type'', PStr ''reject'')]), op2)
                        | Inl other \<Rightarrow> (menu @ ask_json, Inl other, op2)))
                else (menu, Inl (SystemExit 0), op1))))"

section \<open>The drivers\<close>

text \<open>
  The loop over the events of one pass: each event is printed, and an event of status
  \<^verbatim>\<open>interrupt\<close> sets \<^verbatim>\<open>has_interrupt\<close> and \<^verbatim>\<open>interrupt_data\<close>. An exception of
  \<^verbatim>\<open>print_chunk\<close> ends the loop; the drivers do not catch it.
\<close>

fun consume_stream ::
  "markup_check \<Rightarrow> bool \<Rightarrow> pydict list \<Rightarrow> bool \<times> pyval
     \<Rightarrow> printed list \<times> (py_exception + bool \<times> pyval)" where
  "consume_stream bad_markup verbose [] st = ([], Inr st)"
| "consume_stream bad_markup verbose (chunk # rest) st =
     (case print_chunk bad_markup chunk verbose of
        (out, Some e) \<Rightarrow> (out, Inl e)
      | (out, None) \<Rightarrow>
          (case consume_stream bad_markup verbose rest
                  (if dict_get chunk ''status'' PNone = PStr ''interrupt''
                   then (True, dict_get chunk ''interrupt'' (PDict []))
                   else st) of
             (later, r) \<Rightarrow> (out @ later, r)))"

text \<open>
  The \<^verbatim>\<open>while True\<close> loop of \<^verbatim>\<open>run_sync_graph\<close>, from the current \<^verbatim>\<open>input_data\<close>. The
  result is the trace of the loop and the exception that ended it, if one did. Each
  further iteration has taken one answer from the operator, which is why the loop ends.
\<close>

function run_sync_loop ::
  "markup_check \<Rightarrow> ('g, 'c, 'w) engine \<Rightarrow> json_loads \<Rightarrow> 'g \<Rightarrow> 'c option \<Rightarrow> bool \<Rightarrow> bool \<Rightarrow> string
     \<Rightarrow> run_input \<Rightarrow> operator \<Rightarrow> 'w \<Rightarrow> effect list \<times> py_exception option" where
  "run_sync_loop bad_markup stream_graph_updates loads graph config interactive verbose
       stream_mode input_data op w =
     (case stream_graph_updates graph input_data config stream_mode w of
        (chunks, w1) \<Rightarrow>
          (case consume_stream bad_markup verbose chunks (False, PNone) of
             (out, Inl e) \<Rightarrow> (EngineStream input_data # map Console out, Some e)
           | (out, Inr (has_interrupt, interrupt_data)) \<Rightarrow>
               if has_interrupt \<and> interactive then
                 (case handle_interrupt_input loads interrupt_data op of
                    (asked, Inl e, op1) \<Rightarrow>
                      (EngineStream input_data # map Console out @ asked, Some e)
                  | (asked, Inr decision, op1) \<Rightarrow>
                      (case run_sync_loop bad_markup stream_graph_updates loads graph config
                              interactive verbose stream_mode (prepare_agent_input_decisions [decision])
                              op1 w1 of
                         (rest, r) \<Rightarrow>
                           (EngineStream input_data # map Console out @ asked @ rest, r)))
               else (EngineStream input_data # map Console out, None)))"
  by pat_completeness auto
termination
  by (relation "measure (\<lambda>(b, s, l, g, c, i, v, m, inp, op, w). length (choices op))")
     (auto simp: handle_interrupt_input_def Let_def
           split: sum.splits list.splits if_splits py_exception.splits)

text \<open>
  \<^verbatim>\<open>run_sync_graph\<close> itself. The statement
  \<^verbatim>\<open>from langgraph_utils_cli.utils import prepare_agent_input\<close> in the body of the loop
  binds the name \<^verbatim>\<open>prepare_agent_input\<close> inside the function, so in the whole function
  the name is a local variable and not the function imported at the top of the module.
  The first statement, \<^verbatim>\<open>input_data = prepare_agent_input(message=message)\<close>, reads that
  local variable when no statement has bound it yet: \<open>read_local\<close> gives the value of a
  local variable, and at the entry of the function the variable has none. In the loop
  the import statement comes right before the call, which therefore finds the function.
\<close>

definition read_local :: "string \<Rightarrow> 'a option \<Rightarrow> py_exception + 'a" where
  "read_local name binding =
     (case binding of None \<Rightarrow> Inl (UnboundLocalError name) | Some v \<Rightarrow> Inr v)"

definition run_sync_graph ::
  "markup_check \<Rightarrow> ('g, 'c, 'w) engine \<Rightarrow> json_loads \<Rightarrow> 'g \<Rightarrow> string \<Rightarrow> 'c option \<Rightarrow> bool \<Rightarrow> bool \<Rightarrow> string
     \<Rightarrow> operator \<Rightarrow> 'w \<Rightarrow> effect list \<times> py_exception option" where
  "run_sync_graph bad_markup stream_graph_updates loads graph message config interactive
       verbose stream_mode op w =
     (case read_local ''prepare_agent_input'' (None :: (string \<Rightarrow> run_input) option) of
        Inl e \<Rightarrow> ([], Some e)
      | Inr prepare_agent_input \<Rightarrow>
          run_sync_loop bad_markup stream_graph_updates loads graph config interactive verbose
            stream_mode (prepare_agent_input message) op w)"

text \<open>
  \<^verbatim>\<open>run_async_graph\<close> has the same text over \<^verbatim>\<open>astream_graph_updates\<close>, with the same
  import statement in its loop. The points where the coroutine is suspended
  (\<^verbatim>\<open>async for\<close>) do not show in the model: it has one run at a time, and the calls of
  \<^verbatim>\<open>print_chunk\<close> and \<^verbatim>\<open>handle_interrupt_input\<close> are the same blocking calls.
\<close>

function run_async_loop ::
  "markup_check \<Rightarrow> ('g, 'c, 'w) engine \<Rightarrow> json_loads \<Rightarrow> 'g \<Rightarrow> 'c option \<Rightarrow> bool \<Rightarrow> bool \<Rightarrow> string
     \<Rightarrow> run_input \<Rightarrow> operator \<Rightarrow> 'w \<Rightarrow> effect list \<times> py_exception option" where
  "run_async_loop bad_markup astream_graph_updates loads graph config interactive verbose
       stream_mode input_data op w =
     (case astream_graph_updates graph input_data config stream_mode w of
        (chunks, w1) \<Rightarrow>
          (case consume_stream bad_markup verbose chunks (False, PNone) of
             (out, Inl e) \<Rightarrow> (EngineStream input_data # map Console out, Some e)
           | (out, Inr (has_interrupt, interrupt_data)) \<Rightarrow>
               if has_interrupt \<and> interactive then
                 (case handle_interrupt_input loads interrupt_data op of
                    (asked, Inl e, op1) \<Rightarrow>
                      (EngineStream input_data # map Console out @ asked, Some e)
                  | (asked, Inr decision, op1) \<Rightarrow>
                      (case run_async_loop bad_markup astream_graph_updates loads graph config
                              interactive verbose stream_mode (prepare_agent_input_decisions [decision])
                              op1 w1 of
                         (rest, r) \<Rightarrow>
                           (EngineStream input_data # map Console out @ asked @ rest, r)))
               else (EngineStream input_data # map Console out, None)))"
  by pat_completeness auto
termination
  by (relation "measure (\<lambda>(b, s, l, g, c, i, v, m, inp, op, w). length (choices op))")
     (auto simp: handle_interrupt_input_def Let_def
           split: sum.splits list.splits if_splits py_exception.splits)

definition run_async_graph ::
  "markup_check \<Rightarrow> ('g, 'c, 'w) engine \<Rightarrow> json_loads \<Rightarrow> 'g \<Rightarrow> string \<Rightarrow> 'c option \<Rightarrow> bool \<Rightarrow> bool \<Rightarrow> string
     \<Rightarrow> operator \<Rightarrow> 'w \<Rightarrow> effect list \<times> py_exception option" where
  "run_async_graph bad_markup astream_graph_updates loads graph message config interactive
       verbose stream_mode op w =
     (case read_local ''prepare_agent_input'' (None :: (string \<Rightarrow> run_input) option) of
        Inl e \<Rightarrow> ([], Some e)
      | Inr prepare_agent_input \<Rightarrow>
          run_async_loop bad_markup astream_graph_updates loads graph config interactive verbose
            stream_mode (prepare_agent_input message) op w)"

section \<open>Shapes of events\<close>

text \<open>
  A tool call as the spec describes it: a mapping with a \<^verbatim>\<open>name\<close> that is a string and an
  \<^verbatim>\<open>id\<close> that is absent, \<^verbatim>\<open>None\<close> or a string.
\<close>

fun is_str :: "pyval \<Rightarrow> bool" where
  "is_str (PStr s) = True"
| "is_str _ = False"

fun str_or_none :: "pyval \<Rightarrow> bool" where
  "str_or_none (PStr s) = True"
| "str_or_none PNone = True"
| "str_or_none _ = False"

definition wf_tool_call :: "pyval \<Rightarrow> bool" where
  "wf_tool_call tool_call =
     (case tool_call of
        PDict d \<Rightarrow>
          (case map_of d ''name'' of None \<Rightarrow> False | Some name \<Rightarrow> is_str name)
          \<and> str_or_none (dict_get d ''id'' (PStr ''N/A''))
      | _ \<Rightarrow> False)"

text \<open>The events that \<^verbatim>\<open>print_chunk\<close> has no branch for.\<close>

definition unrecognized :: "pydict \<Rightarrow> bool" where
  "unrecognized chunk =
     (let status = dict_get chunk ''status'' PNone in
      if status = PStr ''streaming''
      then \<not> has_key chunk ''chunk'' \<and> \<not> has_key chunk ''tool_calls''
           \<and> \<not> has_key chunk ''todo_list''
      else status \<noteq> PStr ''interrupt'' \<and> status \<noteq> PStr ''complete''
           \<and> status \<noteq> PStr ''error'')"

text \<open>The marker that \<^verbatim>\<open>print_chunk\<close> prints for the status \<^verbatim>\<open>complete\<close>.\<close>

definition complete_marker :: printed where
  "complete_marker =
     console_print (RText [Lit [CHR 0x0A], Lit ''[bold green]'', Sym CheckMark,
                           Lit '' Complete[/bold green]''])"

section \<open>Observations on a run\<close>

text \<open>
  The tests of the drivers on an event, \<^verbatim>\<open>chunk.get("status") == "interrupt"\<close>, and of
  \<^verbatim>\<open>print_chunk\<close> on an engine-reported failure, \<^verbatim>\<open>status == "error"\<close>.
\<close>

definition is_interrupt :: "pydict \<Rightarrow> bool" where
  "is_interrupt chunk = (dict_get chunk ''status'' PNone = PStr ''interrupt'')"

definition is_error :: "pydict \<Rightarrow> bool" where
  "is_error chunk = (dict_get chunk ''status'' PNone = PStr ''error'')"

definition renders :: "markup_check \<Rightarrow> bool \<Rightarrow> pydict \<Rightarrow> bool" where
  "renders bad_markup verbose chunk = (snd (print_chunk bad_markup chunk verbose) = None)"

text \<open>
  What a trace holds: the inputs of the calls of the engine, the prompts shown to the
  operator, and what was printed. The decision prompt is invoked once for each prompt
  \<^verbatim>\<open>Enter your choice\<close>.
\<close>

fun engine_inputs :: "effect list \<Rightarrow> run_input list" where
  "engine_inputs [] = []"
| "engine_inputs (EngineStream i # es) = i # engine_inputs es"
| "engine_inputs (_ # es) = engine_inputs es"

fun prompts :: "effect list \<Rightarrow> string list" where
  "prompts [] = []"
| "prompts (ClickPrompt p # es) = p # prompts es"
| "prompts (_ # es) = prompts es"

fun rendered :: "effect list \<Rightarrow> printed list" where
  "rendered [] = []"
| "rendered (Console p # es) = p # rendered es"
| "rendered (_ # es) = rendered es"

definition decision_prompts :: "effect list \<Rightarrow> nat" where
  "decision_prompts es = length (filter (\<lambda>p. p = ''Enter your choice'') (prompts es))"

text \<open>
  The control part of a trace: the calls of the engine and the prompts, without what is
  printed.
\<close>

fun control :: "effect list \<Rightarrow> effect list" where
  "control [] = []"
| "control (Console p # es) = control es"
| "control (e # es) = e # control es"

text \<open>An engine with the events of status \<^verbatim>\<open>error\<close> taken out of every pass.\<close>

definition without_errors :: "('g, 'c, 'w) engine \<Rightarrow> ('g, 'c, 'w) engine" where
  "without_errors engine graph input_data config stream_mode w =
     (case engine graph input_data config stream_mode w of
        (chunks, w1) \<Rightarrow> (filter (\<lambda>chunk. \<not> is_error chunk) chunks, w1))"

text \<open>
  An engine for the examples: its state is the list of the passes still to come, and a
  call plays the next one whatever its input is.
\<close>

definition replay :: "(unit, unit, pydict list list) engine" where
  "replay graph input_data config stream_mode w =
     (case w of [] \<Rightarrow> ([], []) | pass # later \<Rightarrow> (pass, later))"

text \<open>
  The block of one tool call in the words of the spec: identifier, name, the argument
  payload as JSON with an indentation of two, and the node only in verbose mode.
\<close>

definition tool_invocation_block :: "pyval \<Rightarrow> bool \<Rightarrow> pydict \<Rightarrow> table" where
  "tool_invocation_block node verbose call =
     \<lparr>title = [Lit ''Tool Call: '', Fmt (dict_get call ''name'' PNone)],
      show_header = False,
      columns = [],
      rows = [[CellText [Lit ''ID''], CellValue (dict_get call ''id'' (PStr ''N/A''))],
              [CellText [Lit ''Name''], CellValue (dict_get call ''name'' PNone)],
              [CellText [Lit ''Args''],
               CellSyntax (json_dumps (dict_get call ''args'' (PDict [])) 2) ''json'' ''monokai'']]
             @ (if verbose then [[CellText [Lit ''Node''], CellValue node]] else [])\<rparr>"

text \<open>The panel of an engine-reported failure, and the panel as printed.\<close>

definition error_panel :: "pydict \<Rightarrow> renderable" where
  "error_panel chunk =
     RPanel \<lparr>content = [Lit ''[bold red]'',
                         Fmt (dict_get chunk ''error'' (PStr ''Unknown error'')),
                         Lit ''[/bold red]''],
              panel_title = [Lit ''Error''],
              border_style = ''red''\<rparr>"

definition error_block :: "pydict \<Rightarrow> printed" where
  "error_block chunk = console_print (error_panel chunk)"

text \<open>
  An engine all of whose events of status \<^verbatim>\<open>error\<close> have a panel that the library
  prints.
\<close>

definition errors_printed :: "markup_check \<Rightarrow> ('g, 'c, 'w) engine \<Rightarrow> bool" where
  "errors_printed bad_markup engine =
     (\<forall>graph input_data config stream_mode w.
        list_all (\<lambda>chunk. is_error chunk \<longrightarrow> \<not> bad_markup (error_panel chunk))
          (fst (engine graph input_data config stream_mode w)))"

text \<open>
  For the examples: a text of a thousand opening brackets, and the library as far as an
  example needs it, given by the list of the renderables of the example for which
  \<^verbatim>\<open>console.print\<close> raises \<^verbatim>\<open>MarkupError\<close>.
\<close>

definition deep_text :: string where
  "deep_text = replicate 1000 (CHR ''['')"

definition refusing :: "renderable list \<Rightarrow> markup_check" where
  "refusing refused r = (r \<in> set refused)"


text \<open>The exception that ended a computation, if one did.\<close>

definition raised :: "py_exception + 'a \<Rightarrow> py_exception option" where
  "raised r = (case r of Inl e \<Rightarrow> Some e | Inr x \<Rightarrow> None)"

text \<open>
  The equations of the two loops call themselves; they are used one step at a time.
\<close>

declare run_sync_loop.simps [simp del] run_async_loop.simps [simp del]

section \<open>Events without a rendering of data\<close>

lemma print_chunk_unrecognized:
  "unrecognized c \<Longrightarrow> print_chunk bm c v = ([], None)"
  by (auto simp: unrecognized_def print_chunk_def Let_def split: if_splits)

lemma print_chunk_complete:
  "dict_get c ''status'' PNone = PStr ''complete'' \<Longrightarrow> print_chunk bm c v = ([complete_marker], None)"
  by (simp add: print_chunk_def complete_marker_def Let_def)

text \<open>
  C1, as stated, fails: \<^verbatim>\<open>print_chunk\<close> reads the name of a tool call with
  \<^verbatim>\<open>tool_call['name']\<close>, so the malformed event
  \<^verbatim>\<open>{"status": "streaming", "tool_calls": [{"id": "1"}]}\<close> raises \<^verbatim>\<open>KeyError\<close>, before
  anything is printed.
\<close>

theorem print_chunk_raises_counterexample:
  "print_chunk (refusing []) [(''status'', PStr ''streaming''),
                     (''tool_calls'', PList [PDict [(''id'', PStr ''1'')]])] False
   = ([], Some (KeyError ''name''))"
  by (simp add: print_chunk_def has_key_def dict_get_def tool_call_table_def bind_exc_def)

text \<open>
  C1, amended: for every verbose flag, \<^verbatim>\<open>print_chunk\<close> drops an event, printing nothing
  and raising nothing, when its status is not one of the four known ones or when it is a
  \<^verbatim>\<open>streaming\<close> event with none of the three payload keys; and for an event of status
  \<^verbatim>\<open>complete\<close> it prints the completion marker and raises nothing. This holds whatever
  the library refuses to print.
\<close>

theorem print_chunk_drops_silently:
  "(unrecognized chunk \<longrightarrow> print_chunk bad_markup chunk verbose = ([], None))
   \<and> (dict_get chunk ''status'' PNone = PStr ''complete''
        \<longrightarrow> print_chunk bad_markup chunk verbose = ([complete_marker], None))"
  using print_chunk_unrecognized print_chunk_complete by blast

theorem print_chunk_drops_silently_witness:
  "unrecognized [(''status'', PStr ''thinking'')]
   \<and> print_chunk (refusing []) [(''status'', PStr ''thinking'')] True = ([], None)
   \<and> unrecognized [(''status'', PStr ''streaming''), (''node'', PStr ''agent'')]
   \<and> print_chunk (refusing []) [(''status'', PStr ''streaming''), (''node'', PStr ''agent'')] False
       = ([], None)
   \<and> print_chunk (refusing []) [(''status'', PStr ''complete'')] False = ([complete_marker], None)"
proof -
  have u1: "unrecognized [(''status'', PStr ''thinking'')]"
    by (simp add: unrecognized_def dict_get_def)
  have u2: "unrecognized [(''status'', PStr ''streaming''), (''node'', PStr ''agent'')]"
    by (simp add: unrecognized_def dict_get_def has_key_def)
  have c: "dict_get [(''status'', PStr ''complete'')] ''status'' PNone = PStr ''complete''"
    by (simp add: dict_get_def)
  show ?thesis
    using u1 u2 c
      print_chunk_drops_silently [of "[(''status'', PStr ''thinking'')]" "refusing []" True]
      print_chunk_drops_silently
        [of "[(''status'', PStr ''streaming''), (''node'', PStr ''agent'')]" "refusing []" False]
      print_chunk_drops_silently [of "[(''status'', PStr ''complete'')]" "refusing []" False]
    by blast
qed

section \<open>One iteration of the loop\<close>

lemma run_sync_loop_raise:
  assumes "eng g inp c m w = (chunks, w1)"
    and "consume_stream bm v chunks (False, PNone) = (out, Inl e)"
  shows "run_sync_loop bm eng loads g c i v m inp op w
         = (EngineStream inp # map Console out, Some e)"
  using assms by (simp add: run_sync_loop.simps [of bm eng _ _ _ _ _ _ inp])

lemma run_sync_loop_done:
  assumes "eng g inp c m w = (chunks, w1)"
    and "consume_stream bm v chunks (False, PNone) = (out, Inr (hi, data))"
    and "\<not> (hi \<and> i)"
  shows "run_sync_loop bm eng loads g c i v m inp op w
         = (EngineStream inp # map Console out, None)"
  using assms by (auto simp add: run_sync_loop.simps [of bm eng _ _ _ _ _ _ inp])

lemma run_sync_loop_prompt_raise:
  assumes "eng g inp c m w = (chunks, w1)"
    and "consume_stream bm v chunks (False, PNone) = (out, Inr (True, data))"
    and "i"
    and "handle_interrupt_input loads data op = (asked, Inl e, op1)"
  shows "run_sync_loop bm eng loads g c i v m inp op w
         = (EngineStream inp # map Console out @ asked, Some e)"
  using assms by (simp add: run_sync_loop.simps [of bm eng _ _ _ _ _ _ inp])

lemma run_sync_loop_resume:
  assumes "eng g inp c m w = (chunks, w1)"
    and "consume_stream bm v chunks (False, PNone) = (out, Inr (True, data))"
    and "i"
    and "handle_interrupt_input loads data op = (asked, Inr d, op1)"
  shows "run_sync_loop bm eng loads g c i v m inp op w
         = (EngineStream inp # map Console out @ asked
              @ fst (run_sync_loop bm eng loads g c i v m (prepare_agent_input_decisions [d]) op1 w1),
            snd (run_sync_loop bm eng loads g c i v m (prepare_agent_input_decisions [d]) op1 w1))"
  using assms
  by (simp add: run_sync_loop.simps [of bm eng _ _ _ _ _ _ inp] split: prod.splits)

section \<open>The two drivers\<close>

lemma run_async_loop_eq:
  "run_async_loop bm eng loads g c i v m inp op w = run_sync_loop bm eng loads g c i v m inp op w"
proof (induction bm eng loads g c i v m inp op w rule: run_sync_loop.induct)
  case (1 bm eng loads g c i v m inp op w)
  obtain chunks w1 where s: "eng g inp c m w = (chunks, w1)"
    by force
  obtain out res where cs: "consume_stream bm v chunks (False, PNone) = (out, res)"
    by force
  show ?case
  proof (cases res)
    case (Inl e)
    with s cs show ?thesis
      by (simp add: run_async_loop.simps [of bm eng] run_sync_loop.simps [of bm eng])
  next
    case (Inr st)
    obtain hi data where st: "st = (hi, data)"
      by force
    show ?thesis
    proof (cases "hi \<and> i")
      case False
      with s cs Inr st show ?thesis
        by (auto simp add: run_async_loop.simps [of bm eng] run_sync_loop.simps [of bm eng])
    next
      case True
      obtain asked r op1 where h: "handle_interrupt_input loads data op = (asked, r, op1)"
        using prod_cases3 by blast
      show ?thesis
      proof (cases r)
        case (Inl e)
        with s cs \<open>res = Inr st\<close> st True h show ?thesis
          by (simp add: run_async_loop.simps [of bm eng] run_sync_loop.simps [of bm eng])
      next
        case (Inr d)
        have "run_async_loop bm eng loads g c i v m (prepare_agent_input_decisions [d]) op1 w1
            = run_sync_loop bm eng loads g c i v m (prepare_agent_input_decisions [d]) op1 w1"
          using "1.IH" [OF s [symmetric] cs [symmetric] \<open>res = Inr st\<close> st [symmetric] True
              h [symmetric] refl Inr] .
        with s cs \<open>res = Inr st\<close> st True h Inr show ?thesis
          by (simp add: run_async_loop.simps [of bm eng _ _ _ _ _ _ inp]
                run_sync_loop.simps [of bm eng _ _ _ _ _ _ inp])
      qed
    qed
  qed
qed

lemma run_sync_graph_unbound:
  "run_sync_graph bm engine loads graph message config interactive verbose stream_mode op w
   = ([], Some (UnboundLocalError ''prepare_agent_input''))"
  by (simp add: run_sync_graph_def read_local_def)

lemma run_async_graph_unbound:
  "run_async_graph bm engine loads graph message config interactive verbose stream_mode op w
   = ([], Some (UnboundLocalError ''prepare_agent_input''))"
  by (simp add: run_async_graph_def read_local_def)

text \<open>
  C2: over the same engine (the same events for the same calls), the same operator and
  the same library, \<^verbatim>\<open>run_async_graph\<close> and \<^verbatim>\<open>run_sync_graph\<close> have the same trace and end
  in the same way, and so do their two loops from any input: the same calls of the
  engine, the same prompts and the same printed output, in the same order.
\<close>

theorem run_async_graph_eq_run_sync_graph:
  "run_async_graph bad_markup engine loads graph message config interactive verbose
       stream_mode op w
   = run_sync_graph bad_markup engine loads graph message config interactive verbose
       stream_mode op w
   \<and> run_async_loop bad_markup engine loads graph config interactive verbose stream_mode
         input_data op w
     = run_sync_loop bad_markup engine loads graph config interactive verbose stream_mode
         input_data op w"
  by (simp add: run_async_graph_unbound run_sync_graph_unbound run_async_loop_eq)

section \<open>The events of one pass\<close>

lemma consume_stream_no_interrupt:
  "list_all (\<lambda>c. \<not> is_interrupt c) chunks \<Longrightarrow>
     snd (consume_stream bm v chunks st) = Inr st' \<Longrightarrow> st' = st"
  by (induction chunks arbitrary: st st')
     (auto simp: is_interrupt_def split_beta split: option.splits)

lemma consume_stream_isl:
  "isl (snd (consume_stream bm v chunks st)) = (\<not> list_all (renders bm v) chunks)"
  by (induction chunks arbitrary: st)
     (auto simp: renders_def split_beta split: option.splits)

lemma consume_stream_append:
  "consume_stream bm v (xs @ ys) st =
     (case consume_stream bm v xs st of
        (out, Inl e) \<Rightarrow> (out, Inl e)
      | (out, Inr st1) \<Rightarrow>
          (out @ fst (consume_stream bm v ys st1), snd (consume_stream bm v ys st1)))"
  by (induction xs arbitrary: st)
     (auto simp: split_beta split: option.splits sum.splits)

lemma raised_consume_stream:
  "(raised (snd (consume_stream bm v chunks st)) = None) = list_all (renders bm v) chunks"
  using consume_stream_isl [of bm v chunks st]
  by (cases "snd (consume_stream bm v chunks st)") (auto simp: raised_def)

lemma engine_inputs_Console [simp]: "engine_inputs (map Console out) = []"
  by (induction out) auto

lemma prompts_Console [simp]: "prompts (map Console out) = []"
  by (induction out) auto

lemma rendered_Console [simp]: "rendered (map Console out) = out"
  by (induction out) auto

lemma control_Console [simp]: "control (map Console out) = []"
  by (induction out) auto

lemma engine_inputs_append [simp]: "engine_inputs (xs @ ys) = engine_inputs xs @ engine_inputs ys"
  by (induction xs rule: engine_inputs.induct) auto

lemma prompts_append [simp]: "prompts (xs @ ys) = prompts xs @ prompts ys"
  by (induction xs rule: prompts.induct) auto

lemma rendered_append [simp]: "rendered (xs @ ys) = rendered xs @ rendered ys"
  by (induction xs rule: rendered.induct) auto

lemma control_append [simp]: "control (xs @ ys) = control xs @ control ys"
  by (induction xs rule: control.induct) auto

lemma handle_interrupt_input_asked:
  assumes "handle_interrupt_input loads data op = (asked, Inr d, op1)"
  shows "engine_inputs asked = [] \<and> decision_prompts asked = 1"
  using assms
  by (auto simp: handle_interrupt_input_def Let_def menu_def ask_json_def say_def
        decision_prompts_def bind_exc_def
        split: sum.splits list.splits if_splits py_exception.splits)

lemma consume_stream_last_interrupt:
  assumes "list_all (renders bm v) (es @ [p])" and "is_interrupt p"
  shows "snd (consume_stream bm v (es @ [p]) st)
         = Inr (True, dict_get p ''interrupt'' (PDict []))"
proof -
  from assms(1) have es: "list_all (renders bm v) es" and p: "renders bm v p"
    by simp_all
  from es consume_stream_isl [of bm v es st] obtain st1 where
    "snd (consume_stream bm v es st) = Inr st1"
    by (cases "snd (consume_stream bm v es st)") auto
  moreover from p assms(2) have "snd (consume_stream bm v [p] st1)
      = Inr (True, dict_get p ''interrupt'' (PDict []))"
    by (auto simp: renders_def is_interrupt_def split_beta split: option.splits)
  ultimately show ?thesis
    by (simp add: consume_stream_append split_beta split: sum.splits)
qed

lemma run_sync_loop_single_pass:
  assumes s: "eng g inp c m w = (chunks, w1)"
    and once: "\<not> i \<or> list_all (\<lambda>c. \<not> is_interrupt c) chunks"
  shows "run_sync_loop bm eng loads g c i v m inp op w
         = (EngineStream inp # map Console (fst (consume_stream bm v chunks (False, PNone))),
            raised (snd (consume_stream bm v chunks (False, PNone))))"
proof -
  obtain out res where cs: "consume_stream bm v chunks (False, PNone) = (out, res)"
    by force
  show ?thesis
  proof (cases res)
    case (Inl e)
    with run_sync_loop_raise [where eng=eng and g=g and inp=inp and c=c and m=m and w=w, OF s] cs
    show ?thesis
      by (simp add: raised_def)
  next
    case (Inr st)
    obtain hi data where st: "st = (hi, data)"
      by force
    have "\<not> (hi \<and> i)"
    proof (cases i)
      case True
      with once have "list_all (\<lambda>c. \<not> is_interrupt c) chunks"
        by simp
      from consume_stream_no_interrupt [OF this, where bm=bm and v=v and st="(False, PNone)"
          and st'=st] cs Inr st
      show ?thesis by simp
    next
      case False
      then show ?thesis by simp
    qed
    with run_sync_loop_done [where eng=eng and g=g and inp=inp and c=c and m=m and w=w, OF s]
      cs Inr st
    show ?thesis
      by (simp add: raised_def)
  qed
qed

lemma run_async_loop_single_pass:
  assumes "eng g inp c m w = (chunks, w1)"
    and "\<not> i \<or> list_all (\<lambda>c. \<not> is_interrupt c) chunks"
  shows "run_async_loop bm eng loads g c i v m inp op w
         = (EngineStream inp # map Console (fst (consume_stream bm v chunks (False, PNone))),
            raised (snd (consume_stream bm v chunks (False, PNone))))"
  using run_sync_loop_single_pass [where eng=eng and g=g and inp=inp and c=c and m=m and w=w,
      OF assms]
  by (simp add: run_async_loop_eq)

section \<open>Runs without a resumption\<close>

text \<open>
  Once entered with an input, either loop makes one pass over a stream without an event
  of status \<^verbatim>\<open>interrupt\<close>: one call of the engine, no prompt, the rendering of the pass.
\<close>

lemma loop_without_interrupt_single_pass:
  assumes "list_all (\<lambda>chunk. \<not> is_interrupt chunk) chunks"
    and "engine graph input_data config stream_mode w = (chunks, w1)"
    and "run = run_sync_loop bad_markup engine loads graph config interactive verbose
                 stream_mode input_data op w
         \<or> run = run_async_loop bad_markup engine loads graph config interactive verbose
                 stream_mode input_data op w"
  shows "engine_inputs (fst run) = [input_data]
         \<and> prompts (fst run) = []
         \<and> rendered (fst run) = fst (consume_stream bad_markup verbose chunks (False, PNone))
         \<and> (snd run = None) = list_all (renders bad_markup verbose) chunks"
proof -
  have "run = (EngineStream input_data
                 # map Console (fst (consume_stream bad_markup verbose chunks (False, PNone))),
               raised (snd (consume_stream bad_markup verbose chunks (False, PNone))))"
    using assms(3)
      run_sync_loop_single_pass [where eng=engine and g=graph and c=config and m=stream_mode
        and w=w and inp=input_data, OF assms(2) disjI2 [OF assms(1)]]
      run_async_loop_single_pass [where eng=engine and g=graph and c=config and m=stream_mode
        and w=w and inp=input_data, OF assms(2) disjI2 [OF assms(1)]]
    by auto
  then show ?thesis
    by (simp add: raised_consume_stream)
qed

text \<open>
  C4 fails on the drivers themselves. For a stream of the one event
  \<^verbatim>\<open>{"status": "complete"}\<close>, \<^verbatim>\<open>run_sync_graph\<close> and \<^verbatim>\<open>run_async_graph\<close> raise
  \<^verbatim>\<open>UnboundLocalError\<close> in their first statement: the engine is never called, no pass
  over the stream is made and nothing is printed.
\<close>

theorem drivers_make_no_pass:
  "run_sync_graph (refusing []) replay (\<lambda>s. Inl RecursionError) () ''hi'' None True False
       ''updates'' \<lparr>choices = [], texts = []\<rparr> [[[(''status'', PStr ''complete'')]]]
     = ([], Some (UnboundLocalError ''prepare_agent_input''))
   \<and> run_async_graph (refusing []) replay (\<lambda>s. Inl RecursionError) () ''hi'' None True False
       ''updates'' \<lparr>choices = [], texts = []\<rparr> [[[(''status'', PStr ''complete'')]]]
     = ([], Some (UnboundLocalError ''prepare_agent_input''))
   \<and> engine_inputs (fst (run_sync_graph (refusing []) replay (\<lambda>s. Inl RecursionError) () ''hi''
       None True False ''updates''
       \<lparr>choices = [], texts = []\<rparr> [[[(''status'', PStr ''complete'')]]])) = []
   \<and> engine_inputs (fst (run_sync_loop (refusing []) replay (\<lambda>s. Inl RecursionError) () None
       True False ''updates'' (prepare_agent_input_message ''hi'')
       \<lparr>choices = [], texts = []\<rparr> [[[(''status'', PStr ''complete'')]]]))
     = [FreshMessage ''hi'']"
proof -
  let ?chunks = "[[(''status'', PStr ''complete'')]]"
  have h1: "list_all (\<lambda>chunk. \<not> is_interrupt chunk) ?chunks"
    by (simp add: is_interrupt_def dict_get_def)
  have h2: "replay () (prepare_agent_input_message ''hi'') None ''updates'' [?chunks]
            = (?chunks, [])"
    by (simp add: replay_def)
  from loop_without_interrupt_single_pass [where engine=replay and graph="()"
      and input_data="prepare_agent_input_message ''hi''" and config=None
      and stream_mode="''updates''" and w="[?chunks]" and loads="\<lambda>s. Inl RecursionError"
      and bad_markup="refusing []"
      and interactive=True and verbose=False and op="\<lparr>choices = [], texts = []\<rparr>",
      OF h1 h2 disjI1 [OF refl]]
  have "engine_inputs (fst (run_sync_loop (refusing []) replay (\<lambda>s. Inl RecursionError) () None
       True False ''updates'' (prepare_agent_input_message ''hi'')
       \<lparr>choices = [], texts = []\<rparr> [[[(''status'', PStr ''complete'')]]]))
     = [FreshMessage ''hi'']"
    unfolding prepare_agent_input_message_def by blast
  then show ?thesis
    by (simp add: run_sync_graph_unbound run_async_graph_unbound)
qed

text \<open>
  C5: with interactive mode off, a pass in which an event of status \<^verbatim>\<open>interrupt\<close> is
  seen is the only pass of either loop: the engine is called once, with the input of the
  loop and never with a decision batch, and no prompt is shown. The drivers as a whole
  show no prompt and make no call of the engine either.
\<close>

theorem non_interactive_pause_ends_run:
  assumes "\<not> interactive"
    and "list_ex is_interrupt chunks"
    and "engine graph input_data config stream_mode w = (chunks, w1)"
    and "run = run_sync_loop bad_markup engine loads graph config interactive verbose
                 stream_mode input_data op w
         \<or> run = run_async_loop bad_markup engine loads graph config interactive verbose
                 stream_mode input_data op w"
    and "whole = run_sync_graph bad_markup engine loads graph message config interactive
                   verbose stream_mode op w
         \<or> whole = run_async_graph bad_markup engine loads graph message config interactive
                   verbose stream_mode op w"
  shows "engine_inputs (fst run) = [input_data]
         \<and> prompts (fst run) = []
         \<and> decision_prompts (fst run) = 0
         \<and> rendered (fst run) = fst (consume_stream bad_markup verbose chunks (False, PNone))
         \<and> (snd run = None) = list_all (renders bad_markup verbose) chunks
         \<and> decision_prompts (fst whole) = 0
         \<and> engine_inputs (fst whole) = []"
proof -
  have "run = (EngineStream input_data
                 # map Console (fst (consume_stream bad_markup verbose chunks (False, PNone))),
               raised (snd (consume_stream bad_markup verbose chunks (False, PNone))))"
    using assms(4)
      run_sync_loop_single_pass [where eng=engine and g=graph and c=config and m=stream_mode
        and w=w and inp=input_data and i=interactive, OF assms(3) disjI1 [OF assms(1)]]
      run_async_loop_single_pass [where eng=engine and g=graph and c=config and m=stream_mode
        and w=w and inp=input_data and i=interactive, OF assms(3) disjI1 [OF assms(1)]]
    by auto
  moreover have "whole = ([], Some (UnboundLocalError ''prepare_agent_input''))"
    using assms(5) by (auto simp: run_sync_graph_unbound run_async_graph_unbound)
  ultimately show ?thesis
    by (simp add: decision_prompts_def raised_consume_stream)
qed

theorem non_interactive_pause_ends_run_witness:
  "list_ex is_interrupt [[(''status'', PStr ''interrupt'')]]
   \<and> engine_inputs (fst (run_sync_loop (refusing []) replay (\<lambda>s. Inl RecursionError) () None
        False False ''updates'' (FreshMessage ''hi'') \<lparr>choices = [1], texts = []\<rparr>
        [[[(''status'', PStr ''interrupt'')]], [[(''status'', PStr ''complete'')]]]))
     = [FreshMessage ''hi'']
   \<and> decision_prompts (fst (run_sync_loop (refusing []) replay (\<lambda>s. Inl RecursionError) () None
        False False ''updates'' (FreshMessage ''hi'') \<lparr>choices = [1], texts = []\<rparr>
        [[[(''status'', PStr ''interrupt'')]], [[(''status'', PStr ''complete'')]]]))
     = 0
   \<and> snd (run_sync_loop (refusing []) replay (\<lambda>s. Inl RecursionError) () None
        False False ''updates'' (FreshMessage ''hi'') \<lparr>choices = [1], texts = []\<rparr>
        [[[(''status'', PStr ''interrupt'')]], [[(''status'', PStr ''complete'')]]])
     = None"
proof -
  let ?chunks = "[[(''status'', PStr ''interrupt'')]]"
  let ?w = "[?chunks, [[(''status'', PStr ''complete'')]]]"
  have h1: "\<not> False"
    by simp
  have h2: "list_ex is_interrupt ?chunks"
    by (simp add: is_interrupt_def dict_get_def)
  have h3: "replay () (FreshMessage ''hi'') None ''updates'' ?w
            = (?chunks, [[[(''status'', PStr ''complete'')]]])"
    by (simp add: replay_def)
  have h4: "list_all (renders (refusing []) False) ?chunks"
    by (simp add: renders_def print_chunk_def dict_get_def has_key_def
          interrupt_panel_content_def bind_exc_def console_print_data_def refusing_def)
  show ?thesis
    using h2 h4
      non_interactive_pause_ends_run [where engine=replay and graph="()" and message="''hi''"
        and input_data="FreshMessage ''hi''" and bad_markup="refusing []"
        and config=None and stream_mode="''updates''" and w="?w"
        and loads="\<lambda>s. Inl RecursionError"
        and interactive=False and verbose=False and op="\<lparr>choices = [1], texts = []\<rparr>",
        OF h1 h2 h3 disjI1 [OF refl] disjI1 [OF refl]]
    by simp
qed

section \<open>A run with one resumption\<close>

text \<open>
  Once entered in interactive mode, either loop does the following. Let the first pass
  end with an event of status \<^verbatim>\<open>interrupt\<close>, the only one of the pass, let every event of
  the pass be rendered, let the prompt return the decision \<open>decision\<close> for the payload of
  that event, and let the resumed pass hold no further interrupt. Then the trace is: the
  first call of the engine, the whole rendering of the first pass, the effects of the
  one prompt, the call of the engine with the batch \<open>[decision]\<close>, and the rendering of
  the resumed pass.
\<close>

lemma loop_prompts_once:
  assumes "interactive"
    and "engine graph input_data config stream_mode w = (events @ [pause], w1)"
    and "list_all (\<lambda>chunk. \<not> is_interrupt chunk) events"
    and "is_interrupt pause"
    and "list_all (renders bad_markup verbose) (events @ [pause])"
    and "handle_interrupt_input loads (dict_get pause ''interrupt'' (PDict [])) op
         = (asked, Inr decision, op1)"
    and "engine graph (prepare_agent_input_decisions [decision]) config stream_mode w1
         = (resumed, w2)"
    and "list_all (\<lambda>chunk. \<not> is_interrupt chunk) resumed"
    and "run = run_sync_loop bad_markup engine loads graph config interactive verbose
                 stream_mode input_data op w
         \<or> run = run_async_loop bad_markup engine loads graph config interactive verbose
                 stream_mode input_data op w"
  shows "fst run = EngineStream input_data
                   # map Console (fst (consume_stream bad_markup verbose (events @ [pause])
                                         (False, PNone)))
                   @ asked
                   @ EngineStream (DecisionBatch [decision])
                   # map Console (fst (consume_stream bad_markup verbose resumed (False, PNone)))
         \<and> decision_prompts (fst run) = 1
         \<and> engine_inputs (fst run) = [input_data, DecisionBatch [decision]]"
proof -
  have sync: "run = run_sync_loop bad_markup engine loads graph config interactive verbose
                      stream_mode input_data op w"
    using assms(9) by (auto simp: run_async_loop_eq)
  obtain out where out: "consume_stream bad_markup verbose (events @ [pause]) (False, PNone)
      = (out, Inr (True, dict_get pause ''interrupt'' (PDict [])))"
    using consume_stream_last_interrupt [OF assms(5) assms(4), of "(False, PNone)"]
    by (cases "consume_stream bad_markup verbose (events @ [pause]) (False, PNone)") simp
  have second: "run_sync_loop bad_markup engine loads graph config interactive verbose
        stream_mode (prepare_agent_input_decisions [decision]) op1 w1
      = (EngineStream (prepare_agent_input_decisions [decision])
           # map Console (fst (consume_stream bad_markup verbose resumed (False, PNone))),
         raised (snd (consume_stream bad_markup verbose resumed (False, PNone))))"
    using run_sync_loop_single_pass [where eng=engine and g=graph and c=config and m=stream_mode
        and w=w1 and inp="prepare_agent_input_decisions [decision]",
        OF assms(7) disjI2 [OF assms(8)]] .
  have first: "fst run = EngineStream input_data
                   # map Console (fst (consume_stream bad_markup verbose (events @ [pause])
                                         (False, PNone)))
                   @ asked
                   @ EngineStream (DecisionBatch [decision])
                   # map Console (fst (consume_stream bad_markup verbose resumed (False, PNone)))"
    using run_sync_loop_resume [where eng=engine and g=graph and c=config and m=stream_mode
        and w=w and inp=input_data, OF assms(2) out assms(1) assms(6)]
      second sync out
    by (simp add: prepare_agent_input_decisions_def)
  moreover from handle_interrupt_input_asked [OF assms(6)]
  have "engine_inputs asked = []" "decision_prompts asked = 1"
    by simp_all
  ultimately show ?thesis
    by (simp add: decision_prompts_def)
qed

text \<open>
  C3 fails on the drivers themselves. In interactive mode, for an engine whose first
  stream ends with one event of status \<^verbatim>\<open>interrupt\<close> and an operator who answers 1,
  \<^verbatim>\<open>run_sync_graph\<close> and \<^verbatim>\<open>run_async_graph\<close> raise \<^verbatim>\<open>UnboundLocalError\<close> in their first
  statement: the decision prompt is never shown and the engine is never resumed. The
  loop, entered with the fresh message, would show the prompt once and resume once with
  the batch of the one decision.
\<close>

theorem drivers_never_prompt:
  "decision_prompts (fst (run_sync_graph (refusing []) replay (\<lambda>s. Inl RecursionError) () ''hi''
        None True False ''updates'' \<lparr>choices = [1], texts = []\<rparr>
        [[[(''status'', PStr ''interrupt'')]], [[(''status'', PStr ''complete'')]]])) = 0
   \<and> engine_inputs (fst (run_sync_graph (refusing []) replay (\<lambda>s. Inl RecursionError) () ''hi''
        None True False ''updates'' \<lparr>choices = [1], texts = []\<rparr>
        [[[(''status'', PStr ''interrupt'')]], [[(''status'', PStr ''complete'')]]])) = []
   \<and> snd (run_sync_graph (refusing []) replay (\<lambda>s. Inl RecursionError) () ''hi''
        None True False ''updates'' \<lparr>choices = [1], texts = []\<rparr>
        [[[(''status'', PStr ''interrupt'')]], [[(''status'', PStr ''complete'')]]])
     = Some (UnboundLocalError ''prepare_agent_input'')
   \<and> run_async_graph (refusing []) replay (\<lambda>s. Inl RecursionError) () ''hi''
        None True False ''updates'' \<lparr>choices = [1], texts = []\<rparr>
        [[[(''status'', PStr ''interrupt'')]], [[(''status'', PStr ''complete'')]]]
     = ([], Some (UnboundLocalError ''prepare_agent_input''))
   \<and> decision_prompts (fst (run_sync_loop (refusing []) replay (\<lambda>s. Inl RecursionError) () None
        True False ''updates''
        (prepare_agent_input_message ''hi'') \<lparr>choices = [1], texts = []\<rparr>
        [[[(''status'', PStr ''interrupt'')]], [[(''status'', PStr ''complete'')]]])) = 1
   \<and> engine_inputs (fst (run_sync_loop (refusing []) replay (\<lambda>s. Inl RecursionError) () None
        True False ''updates''
        (prepare_agent_input_message ''hi'') \<lparr>choices = [1], texts = []\<rparr>
        [[[(''status'', PStr ''interrupt'')]], [[(''status'', PStr ''complete'')]]]))
     = [FreshMessage ''hi'', DecisionBatch [PDict [(''type'', PStr ''approve'')]]]"
proof -
  let ?pause = "[(''status'', PStr ''interrupt'')]"
  let ?resumed = "[[(''status'', PStr ''complete'')]]"
  let ?d = "PDict [(''type'', PStr ''approve'')]"
  have h1: "True"
    by simp
  have h2: "replay () (prepare_agent_input_message ''hi'') None ''updates'' [[?pause], ?resumed]
            = ([] @ [?pause], [?resumed])"
    by (simp add: replay_def)
  have h3: "list_all (\<lambda>chunk. \<not> is_interrupt chunk) ([] :: pydict list)"
    by simp
  have h4: "is_interrupt ?pause"
    by (simp add: is_interrupt_def dict_get_def)
  have h5: "list_all (renders (refusing []) False) ([] @ [?pause])"
    by (simp add: renders_def print_chunk_def dict_get_def has_key_def
          interrupt_panel_content_def bind_exc_def console_print_data_def refusing_def)
  have h6: "handle_interrupt_input (\<lambda>s. Inl RecursionError)
              (dict_get ?pause ''interrupt'' (PDict [])) \<lparr>choices = [1], texts = []\<rparr>
            = (menu, Inr ?d, \<lparr>choices = [], texts = []\<rparr>)"
    by (simp add: handle_interrupt_input_def bind_exc_def dict_get_def)
  have h7: "replay () (prepare_agent_input_decisions [?d]) None ''updates'' [?resumed]
            = (?resumed, [])"
    by (simp add: replay_def)
  have h8: "list_all (\<lambda>chunk. \<not> is_interrupt chunk) ?resumed"
    by (simp add: is_interrupt_def dict_get_def)
  note loop = loop_prompts_once [where engine=replay and graph="()"
        and input_data="prepare_agent_input_message ''hi''" and bad_markup="refusing []"
        and config=None and stream_mode="''updates''" and w="[[?pause], ?resumed]"
        and loads="\<lambda>s. Inl RecursionError" and interactive=True and verbose=False
        and op="\<lparr>choices = [1], texts = []\<rparr>",
        OF h1 h2 h3 h4 h5 h6 h7 h8 disjI1 [OF refl]]
  have "decision_prompts (fst (run_sync_loop (refusing []) replay (\<lambda>s. Inl RecursionError) ()
        None True False ''updates''
        (prepare_agent_input_message ''hi'') \<lparr>choices = [1], texts = []\<rparr>
        [[?pause], ?resumed])) = 1"
    and "engine_inputs (fst (run_sync_loop (refusing []) replay (\<lambda>s. Inl RecursionError) ()
        None True False ''updates''
        (prepare_agent_input_message ''hi'') \<lparr>choices = [1], texts = []\<rparr>
        [[?pause], ?resumed]))
     = [FreshMessage ''hi'', DecisionBatch [?d]]"
    using loop unfolding prepare_agent_input_message_def by blast+
  then show ?thesis
    by (simp add: run_sync_graph_unbound run_async_graph_unbound decision_prompts_def)
qed

section \<open>The decision prompt\<close>

text \<open>
  C6, as stated, fails: \<^verbatim>\<open>handle_interrupt_input\<close> catches \<^verbatim>\<open>JSONDecodeError\<close> only. For
  the text of a thousand opening brackets, which is not valid JSON, \<^verbatim>\<open>json.loads\<close> raises
  \<^verbatim>\<open>RecursionError\<close>, and that exception reaches the caller.
\<close>

theorem deep_json_text_propagates_counterexample:
  "handle_interrupt_input
     (\<lambda>s. if s = deep_text then Inl RecursionError
           else Inl (JSONDecodeError ''Expecting value: line 1 column 1 (char 0)''))
     (PDict []) \<lparr>choices = [3], texts = [deep_text]\<rparr>
   = (menu @ ask_json, Inl RecursionError, \<lparr>choices = [], texts = []\<rparr>)"
  by (simp add: handle_interrupt_input_def bind_exc_def)

text \<open>
  C6, amended: when the operator chooses 3 and types a text for which \<^verbatim>\<open>json.loads\<close>
  raises \<^verbatim>\<open>JSONDecodeError\<close>, \<^verbatim>\<open>handle_interrupt_input\<close> prints the message of the error
  and returns the decision \<^verbatim>\<open>{"type": "reject"}\<close>; it returns normally, so that error
  does not reach the caller. When \<^verbatim>\<open>json.loads\<close> raises \<^verbatim>\<open>RecursionError\<close> instead, the
  exception leaves \<^verbatim>\<open>handle_interrupt_input\<close>.
\<close>

theorem json_decode_error_rejects:
  "(loads json_str = Inl (JSONDecodeError err) \<longrightarrow>
      handle_interrupt_input loads (PDict interrupt_data)
           \<lparr>choices = 3 # cs, texts = json_str # ts\<rparr>
         = (menu @ ask_json
              @ [Console (console_print
                   (RText [Lit ''[red]Invalid JSON: '', Lit err, Lit ''[/red]'']))],
            Inr (PDict [(''type'', PStr ''reject'')]),
            \<lparr>choices = cs, texts = ts\<rparr>))
   \<and> (loads json_str = Inl RecursionError \<longrightarrow>
      handle_interrupt_input loads (PDict interrupt_data)
           \<lparr>choices = 3 # cs, texts = json_str # ts\<rparr>
         = (menu @ ask_json, Inl RecursionError, \<lparr>choices = cs, texts = ts\<rparr>))"
  by (simp add: handle_interrupt_input_def bind_exc_def)

theorem json_decode_error_rejects_witness:
  "fst (snd (handle_interrupt_input
        (\<lambda>s. if s = deep_text then Inl RecursionError
              else Inl (JSONDecodeError ''Expecting value: line 1 column 1 (char 0)''))
        (PDict []) \<lparr>choices = [3], texts = [''not valid json'']\<rparr>))
     = Inr (PDict [(''type'', PStr ''reject'')])
   \<and> fst (snd (handle_interrupt_input
        (\<lambda>s. if s = deep_text then Inl RecursionError
              else Inl (JSONDecodeError ''Expecting value: line 1 column 1 (char 0)''))
        (PDict []) \<lparr>choices = [3], texts = [deep_text]\<rparr>))
     = Inl RecursionError"
proof -
  let ?loads = "\<lambda>s. if s = deep_text then Inl RecursionError
              else Inl (JSONDecodeError ''Expecting value: line 1 column 1 (char 0)'')"
  have "length ''not valid json'' \<noteq> length deep_text"
    by (simp add: deep_text_def)
  then have n: "''not valid json'' \<noteq> deep_text"
    by (rule contrapos_nn) (erule arg_cong)
  have h1: "?loads ''not valid json''
            = Inl (JSONDecodeError ''Expecting value: line 1 column 1 (char 0)'')"
    using n by simp
  have h2: "?loads (deep_text) = Inl RecursionError"
    by simp
  note a = json_decode_error_rejects [where loads="?loads" and json_str="''not valid json''"
      and err="''Expecting value: line 1 column 1 (char 0)''" and interrupt_data="[]"
      and cs="[]" and ts="[]", THEN conjunct1, THEN mp, OF h1]
  note b = json_decode_error_rejects [where loads="?loads"
      and json_str="deep_text" and interrupt_data="[]"
      and cs="[]" and ts="[]", THEN conjunct2, THEN mp, OF h2]
  show ?thesis
    using a b by (simp only: fst_conv snd_conv) 
qed

text \<open>
  C9: every choice other than 1, 2 and 3 makes \<^verbatim>\<open>handle_interrupt_input\<close> raise
  \<^verbatim>\<open>SystemExit(0)\<close> right after the menu, without asking again; the driver does not
  catch it, so the run ends there with exit status 0 and the engine is not called again.
\<close>

theorem other_choice_exits:
  assumes "choice \<noteq> 1" and "choice \<noteq> 2" and "choice \<noteq> 3"
  shows "handle_interrupt_input loads (PDict interrupt_data) \<lparr>choices = choice # cs, texts = ts\<rparr>
           = (menu, Inl (SystemExit 0), \<lparr>choices = cs, texts = ts\<rparr>)
         \<and> (interactive
              \<and> engine graph input_data config stream_mode w = (chunks, w1)
              \<and> consume_stream bad_markup verbose chunks (False, PNone)
                  = (out, Inr (True, PDict interrupt_data))
            \<longrightarrow> run_sync_loop bad_markup engine loads graph config interactive verbose
                  stream_mode input_data \<lparr>choices = choice # cs, texts = ts\<rparr> w
                = (EngineStream input_data # map Console out @ menu, Some (SystemExit 0)))"
proof -
  have h: "handle_interrupt_input loads (PDict interrupt_data) \<lparr>choices = choice # cs, texts = ts\<rparr>
           = (menu, Inl (SystemExit 0), \<lparr>choices = cs, texts = ts\<rparr>)"
    using assms by (simp add: handle_interrupt_input_def bind_exc_def)
  show ?thesis
    using h run_sync_loop_prompt_raise [where eng=engine and g=graph and inp=input_data and c=config
        and m=stream_mode and w=w and loads=loads and i=interactive and v=verbose
        and bm=bad_markup
        and data="PDict interrupt_data" and op="\<lparr>choices = choice # cs, texts = ts\<rparr>"
        and chunks=chunks and ?w1.0=w1 and out=out and asked=menu and e="SystemExit 0"
        and ?op1.0="\<lparr>choices = cs, texts = ts\<rparr>"]
    by blast
qed

theorem other_choice_exits_witness:
  "(5::int) \<noteq> 1 \<and> (5::int) \<noteq> 2 \<and> (5::int) \<noteq> 3
   \<and> handle_interrupt_input (\<lambda>s. Inl RecursionError) (PDict []) \<lparr>choices = [5], texts = []\<rparr>
       = (menu, Inl (SystemExit 0), \<lparr>choices = [], texts = []\<rparr>)
   \<and> run_sync_loop (refusing []) replay (\<lambda>s. Inl RecursionError) () None True False ''updates''
         (FreshMessage ''hi'') \<lparr>choices = [5], texts = []\<rparr>
         [[[(''status'', PStr ''interrupt'')]], [[(''status'', PStr ''complete'')]]]
       = (EngineStream (FreshMessage ''hi'')
            # map Console (fst (print_chunk (refusing []) [(''status'', PStr ''interrupt'')] False))
            @ menu,
          Some (SystemExit 0))"
proof -
  have h1: "(5::int) \<noteq> 1" and h2: "(5::int) \<noteq> 2" and h3: "(5::int) \<noteq> 3"
    by simp_all
  have e: "replay () (FreshMessage ''hi'') None ''updates''
             [[[(''status'', PStr ''interrupt'')]], [[(''status'', PStr ''complete'')]]]
           = ([[(''status'', PStr ''interrupt'')]], [[[(''status'', PStr ''complete'')]]])"
    by (simp add: replay_def)
  have p: "snd (print_chunk (refusing []) [(''status'', PStr ''interrupt'')] False) = None"
    by (simp add: print_chunk_def dict_get_def interrupt_panel_content_def bind_exc_def
          console_print_data_def refusing_def)
  have c: "consume_stream (refusing []) False [[(''status'', PStr ''interrupt'')]] (False, PNone)
           = (fst (print_chunk (refusing []) [(''status'', PStr ''interrupt'')] False),
              Inr (True, PDict []))"
    using p by (simp add: split_beta dict_get_def split: option.splits)
  show ?thesis
    using h1 h2 h3 e c
      other_choice_exits [where choice=5 and loads="\<lambda>s. Inl RecursionError"
        and interrupt_data="[]" and cs="[]" and bad_markup="refusing []"
        and ts="[]" and interactive=True and engine=replay and graph="()"
        and input_data="FreshMessage ''hi''" and config=None and stream_mode="''updates''"
        and w="[[[(''status'', PStr ''interrupt'')]], [[(''status'', PStr ''complete'')]]]"
        and chunks="[[(''status'', PStr ''interrupt'')]]"
        and ?w1.0="[[[(''status'', PStr ''complete'')]]]" and verbose=False
        and out="fst (print_chunk (refusing []) [(''status'', PStr ''interrupt'')] False)",
        OF h1 h2 h3]
    by blast
qed

section \<open>The payload of a streaming event\<close>






section \<open>Tool calls\<close>

lemma tool_call_table_block:
  assumes "wf_tool_call (PDict call)" and "verbose \<longrightarrow> str_or_none node"
  shows "tool_call_table node verbose (PDict call)
         = Inr (tool_invocation_block node verbose call)"
proof -
  from assms(1) obtain name where n: "map_of call ''name'' = Some (PStr name)"
    and i: "str_or_none (dict_get call ''id'' (PStr ''N/A''))"
    by (auto simp: wf_tool_call_def split: option.splits elim!: is_str.elims)
  from i have ci: "cell_ok (CellValue (dict_get call ''id'' (PStr ''N/A'')))"
    by (auto elim!: str_or_none.elims)
  from assms(2) have cn: "verbose \<Longrightarrow> cell_ok (CellValue node)"
    by (auto elim!: str_or_none.elims)
  show ?thesis
    using n ci cn
    by (simp add: tool_call_table_def tool_invocation_block_def bind_exc_def add_row_def
          Table_def dict_get_def)
qed

lemma print_tool_calls_blocks:
  assumes "list_all (\<lambda>call. wf_tool_call (PDict call)) calls" and "verbose \<longrightarrow> str_or_none node"
  shows "print_tool_calls bm node verbose (map PDict calls)
         = (map (\<lambda>call. console_print (RTable (tool_invocation_block node verbose call)))
              (takeWhile (\<lambda>call. \<not> bm (RTable (tool_invocation_block node verbose call))) calls),
            if list_all (\<lambda>call. \<not> bm (RTable (tool_invocation_block node verbose call))) calls
            then None else Some MarkupError)"
  using assms
  by (induction calls)
     (simp_all add: tool_call_table_block console_print_data_def console_print_def)

lemma json_members_map:
  "json_members ind lvl d = map (\<lambda>(k, v). json_string k @ '': '' @ json_encode ind lvl v) d"
  by (induction d) auto

text \<open>
  C8, as stated, fails: a \<^verbatim>\<open>streaming\<close> event that carries a list of tool calls and also
  a text is printed as the text alone, and no block is printed for its tool call.
\<close>

theorem tool_calls_beside_text_counterexample:
  "print_chunk (refusing [])
     [(''status'', PStr ''streaming''), (''chunk'', PStr ''Hi''),
      (''tool_calls'', PList [PDict [(''id'', PStr ''1''), (''name'', PStr ''search'')]])] False
   = ([Print (RValue (PStr ''Hi'')) []], None)"
  by (simp add: print_chunk_def has_key_def dict_get_def console_print_data_def refusing_def)

text \<open>
  C8, amended: for a \<^verbatim>\<open>streaming\<close> event without the key \<^verbatim>\<open>chunk\<close> whose \<^verbatim>\<open>tool_calls\<close> is
  a list of mappings, each with a name that is a string and an identifier that is absent,
  \<^verbatim>\<open>None\<close> or a string, and, in verbose mode, with a node that is absent, \<^verbatim>\<open>None\<close> or a
  string, \<^verbatim>\<open>print_chunk\<close> prints one table for each call, in order, with the rows ID, Name
  and Args, and a row Node exactly in verbose mode; it stops with \<^verbatim>\<open>MarkupError\<close> at the
  first call whose table the library refuses to print. The Args cell is the payload as
  JSON: its members in the order of the payload, one on each line, indented by two spaces.
\<close>

theorem tool_calls_rendered_as_blocks:
  assumes "dict_get chunk ''status'' PNone = PStr ''streaming''"
    and "\<not> has_key chunk ''chunk''"
    and "dict_get chunk ''tool_calls'' PNone = PList (map PDict calls)"
    and "list_all (\<lambda>call. wf_tool_call (PDict call)) calls"
    and "verbose \<longrightarrow> str_or_none (dict_get chunk ''node'' (PStr ''unknown''))"
    and "block = tool_invocation_block (dict_get chunk ''node'' (PStr ''unknown'')) verbose"
  shows "print_chunk bad_markup chunk verbose
           = (map (\<lambda>call. console_print (RTable (block call)))
                (takeWhile (\<lambda>call. \<not> bad_markup (RTable (block call))) calls),
              if list_all (\<lambda>call. \<not> bad_markup (RTable (block call))) calls
              then None else Some MarkupError)
         \<and> json_dumps (PDict ((k, v) # d)) 2
           = ''{'' @ CHR 0x0A # ''  ''
             @ intersperse ('','' @ CHR 0x0A # ''  '')
                 (map (\<lambda>(k, v). json_string k @ '': '' @ json_encode 2 1 v) ((k, v) # d))
             @ [CHR 0x0A] @ ''}''"
proof -
  from assms(3) have "has_key chunk ''tool_calls''"
    by (auto simp: dict_get_def has_key_def split: option.splits)
  with assms(1,2,3,6) print_tool_calls_blocks [OF assms(4,5), of bad_markup]
  have "print_chunk bad_markup chunk verbose
           = (map (\<lambda>call. console_print (RTable (block call)))
                (takeWhile (\<lambda>call. \<not> bad_markup (RTable (block call))) calls),
              if list_all (\<lambda>call. \<not> bad_markup (RTable (block call))) calls
              then None else Some MarkupError)"
    by (simp add: print_chunk_def Let_def)
  moreover have "json_dumps (PDict ((k, v) # d)) 2
           = ''{'' @ CHR 0x0A # ''  ''
             @ intersperse ('','' @ CHR 0x0A # ''  '')
                 (map (\<lambda>(k, v). json_string k @ '': '' @ json_encode 2 1 v) ((k, v) # d))
             @ [CHR 0x0A] @ ''}''"
    by (simp add: json_dumps_def newline_indent_def json_members_map numeral_2_eq_2)
  ultimately show ?thesis
    by simp
qed

theorem tool_calls_rendered_as_blocks_witness:
  "\<not> has_key [(''status'', PStr ''streaming''), (''node'', PStr ''agent''),
       (''tool_calls'', PList [PDict [(''id'', PStr ''1''), (''name'', PStr ''search''),
                                      (''args'', PDict [(''q'', PStr ''x'')])]])] ''chunk''
   \<and> print_chunk (refusing [])
       [(''status'', PStr ''streaming''), (''node'', PStr ''agent''),
       (''tool_calls'', PList [PDict [(''id'', PStr ''1''), (''name'', PStr ''search''),
                                      (''args'', PDict [(''q'', PStr ''x'')])]])] True
     = ([console_print (RTable
          \<lparr>title = [Lit ''Tool Call: '', Fmt (PStr ''search'')],
           show_header = False,
           columns = [],
           rows = [[CellText [Lit ''ID''], CellValue (PStr ''1'')],
                   [CellText [Lit ''Name''], CellValue (PStr ''search'')],
                   [CellText [Lit ''Args''],
                    CellSyntax (''{'' @ CHR 0x0A # ''  '' @ CHR 0x22 # ''q'' @ CHR 0x22 # '': ''
                                @ CHR 0x22 # ''x'' @ CHR 0x22 # CHR 0x0A # ''}'')
                      ''json'' ''monokai''],
                   [CellText [Lit ''Node''], CellValue (PStr ''agent'')]]\<rparr>)], None)"
proof -
  let ?call = "[(''id'', PStr ''1''), (''name'', PStr ''search''), (''args'', PDict [(''q'', PStr ''x'')])]"
  let ?chunk = "[(''status'', PStr ''streaming''), (''node'', PStr ''agent''),
       (''tool_calls'', PList [PDict ?call])]"
  let ?block = "tool_invocation_block (dict_get ?chunk ''node'' (PStr ''unknown'')) True"
  have h1: "dict_get ?chunk ''status'' PNone = PStr ''streaming''"
    by (simp add: dict_get_def)
  have h2: "\<not> has_key ?chunk ''chunk''"
    by (simp add: has_key_def)
  have h3: "dict_get ?chunk ''tool_calls'' PNone = PList (map PDict [?call])"
    by (simp add: dict_get_def)
  have h4: "list_all (\<lambda>call. wf_tool_call (PDict call)) [?call]"
    by (simp add: wf_tool_call_def dict_get_def)
  have h5: "True \<longrightarrow> str_or_none (dict_get ?chunk ''node'' (PStr ''unknown''))"
    by (simp add: dict_get_def)
  have j: "json_dumps (PDict [(''q'', PStr ''x'')]) 2
           = ''{'' @ CHR 0x0A # ''  '' @ CHR 0x22 # ''q'' @ CHR 0x22 # '': ''
                                @ CHR 0x22 # ''x'' @ CHR 0x22 # CHR 0x0A # ''}''"
    by code_simp
  from tool_calls_rendered_as_blocks [OF h1 h2 h3 h4 h5 refl, of "refusing []"]
  have "print_chunk (refusing []) ?chunk True
        = (map (\<lambda>call. console_print (RTable (?block call)))
             (takeWhile (\<lambda>call. \<not> refusing [] (RTable (?block call))) [?call]),
           if list_all (\<lambda>call. \<not> refusing [] (RTable (?block call))) [?call]
           then None else Some MarkupError)"
    by blast
  then show ?thesis
    using h2 by (simp add: tool_invocation_block_def dict_get_def j refusing_def)
qed

section \<open>Engine-reported failures\<close>

lemma print_chunk_error:
  "is_error c \<Longrightarrow> \<not> bm (error_panel c) \<Longrightarrow> print_chunk bm c v = ([error_block c], None)"
  by (simp add: is_error_def print_chunk_def error_block_def error_panel_def Let_def
        console_print_data_def console_print_def)

lemma print_chunk_error_refused:
  "is_error c \<Longrightarrow> bm (error_panel c) \<Longrightarrow> print_chunk bm c v = ([], Some MarkupError)"
  by (simp add: is_error_def print_chunk_def error_panel_def Let_def console_print_data_def)

lemma consume_stream_error:
  assumes "is_error c" and "\<not> bm (error_panel c)"
  shows "consume_stream bm v (c # rest) st
         = (error_block c # fst (consume_stream bm v rest st),
            snd (consume_stream bm v rest st))"
  using assms print_chunk_error [where bm=bm and c=c and v=v]
  by (simp add: is_error_def split_beta)

lemma consume_stream_error_refused:
  assumes "is_error c" and "bm (error_panel c)"
  shows "consume_stream bm v (c # rest) st = ([], Inl MarkupError)"
  using assms print_chunk_error_refused [where bm=bm and c=c and v=v] by simp

lemma consume_stream_without_errors:
  assumes "list_all (\<lambda>c. is_error c \<longrightarrow> \<not> bm (error_panel c)) chunks"
  shows "snd (consume_stream bm v (filter (\<lambda>c. \<not> is_error c) chunks) st)
         = snd (consume_stream bm v chunks st)"
  using assms
proof (induction chunks arbitrary: st)
  case Nil
  then show ?case by simp
next
  case (Cons a chunks)
  show ?case
  proof (cases "is_error a")
    case True
    with Cons show ?thesis
      by (simp add: consume_stream_error del: consume_stream.simps)
  next
    case False
    with Cons show ?thesis
      by (simp add: split_beta split: option.splits)
  qed
qed

lemma run_sync_loop_without_errors:
  "errors_printed bm eng \<Longrightarrow>
   control (fst (run_sync_loop bm (without_errors eng) loads g c i v m inp op w))
     = control (fst (run_sync_loop bm eng loads g c i v m inp op w))
   \<and> snd (run_sync_loop bm (without_errors eng) loads g c i v m inp op w)
     = snd (run_sync_loop bm eng loads g c i v m inp op w)"
proof (induction bm eng loads g c i v m inp op w rule: run_sync_loop.induct)
  case (1 bm eng loads g c i v m inp op w)
  obtain chunks w1 where s: "eng g inp c m w = (chunks, w1)"
    by force
  let ?kept = "filter (\<lambda>c. \<not> is_error c) chunks"
  have s': "without_errors eng g inp c m w = (?kept, w1)"
    by (simp add: without_errors_def s)
  from "1.prems" have "list_all (\<lambda>c. is_error c \<longrightarrow> \<not> bm (error_panel c))
      (fst (eng g inp c m w))"
    unfolding errors_printed_def by blast
  then have shown: "list_all (\<lambda>c. is_error c \<longrightarrow> \<not> bm (error_panel c)) chunks"
    by (simp add: s)
  obtain out res where cs: "consume_stream bm v chunks (False, PNone) = (out, res)"
    by force
  obtain out' where cs': "consume_stream bm v ?kept (False, PNone) = (out', res)"
    using consume_stream_without_errors [OF shown, of v "(False, PNone)"] cs
    by (cases "consume_stream bm v ?kept (False, PNone)") simp
  show ?case
  proof (cases res)
    case (Inl e)
    with s s' cs cs' show ?thesis
      by (simp add: run_sync_loop.simps [of bm eng] run_sync_loop.simps [of bm "without_errors eng"])
  next
    case (Inr st)
    obtain hi data where st: "st = (hi, data)"
      by force
    show ?thesis
    proof (cases "hi \<and> i")
      case False
      with s s' cs cs' Inr st show ?thesis
        by (auto simp add: run_sync_loop.simps [of bm eng]
              run_sync_loop.simps [of bm "without_errors eng"])
    next
      case True
      obtain asked r op1 where h: "handle_interrupt_input loads data op = (asked, r, op1)"
        using prod_cases3 by blast
      show ?thesis
      proof (cases r)
        case (Inl e)
        with s s' cs cs' \<open>res = Inr st\<close> st True h show ?thesis
          by (simp add: run_sync_loop.simps [of bm eng]
                run_sync_loop.simps [of bm "without_errors eng"])
      next
        case (Inr d)
        note ih = "1.IH" [OF s [symmetric] cs [symmetric] \<open>res = Inr st\<close> st [symmetric] True
              h [symmetric] refl Inr "1.prems"]
        with s s' cs cs' \<open>res = Inr st\<close> st True h Inr show ?thesis
          by (simp add: run_sync_loop.simps [of bm eng _ _ _ _ _ _ inp]
                run_sync_loop.simps [of bm "without_errors eng" _ _ _ _ _ _ inp] split_beta)
      qed
    qed
  qed
qed

lemma run_async_loop_without_errors:
  "errors_printed bm eng \<Longrightarrow>
   control (fst (run_async_loop bm (without_errors eng) loads g c i v m inp op w))
     = control (fst (run_async_loop bm eng loads g c i v m inp op w))
   \<and> snd (run_async_loop bm (without_errors eng) loads g c i v m inp op w)
     = snd (run_async_loop bm eng loads g c i v m inp op w)"
  using run_sync_loop_without_errors [of bm eng loads g c i v m inp op w]
  by (simp add: run_async_loop_eq)

text \<open>
  C7, as stated, fails: the message of an event of status \<^verbatim>\<open>error\<close> is put into the text
  of the panel as it is, and the library reads that text as markup. For the message
  \<^verbatim>\<open>No such file: [/tmp/x]\<close> it raises \<^verbatim>\<open>MarkupError\<close>, which the loop does not catch: the
  event ends the loop, nothing after it is printed, and the same stream without the
  event ends normally.
\<close>

theorem error_event_ends_loop_counterexample:
  "run_sync_loop
     (refusing [error_panel [(''status'', PStr ''error''),
                             (''error'', PStr ''No such file: [/tmp/x]'')]])
     replay (\<lambda>s. Inl RecursionError) () None True False ''updates'' (FreshMessage ''hi'')
     \<lparr>choices = [], texts = []\<rparr>
     [[[(''status'', PStr ''error''), (''error'', PStr ''No such file: [/tmp/x]'')],
       [(''status'', PStr ''complete'')]]]
   = ([EngineStream (FreshMessage ''hi'')], Some MarkupError)
   \<and> run_sync_loop
     (refusing [error_panel [(''status'', PStr ''error''),
                             (''error'', PStr ''No such file: [/tmp/x]'')]])
     replay (\<lambda>s. Inl RecursionError) () None True False ''updates'' (FreshMessage ''hi'')
     \<lparr>choices = [], texts = []\<rparr>
     [[[(''status'', PStr ''complete'')]]]
   = ([EngineStream (FreshMessage ''hi''), Console complete_marker], None)"
proof -
  let ?ev = "[(''status'', PStr ''error''), (''error'', PStr ''No such file: [/tmp/x]'')]"
  let ?fin = "[(''status'', PStr ''complete'')]"
  let ?bm = "refusing [error_panel ?ev]"
  have e: "is_error ?ev"
    by (simp add: is_error_def dict_get_def)
  have b: "?bm (error_panel ?ev)"
    by (simp add: refusing_def)
  have c1: "consume_stream ?bm False [?ev, ?fin] (False, PNone) = ([], Inl MarkupError)"
    using consume_stream_error_refused [where bm="?bm" and c="?ev", OF e b] .
  have f: "dict_get ?fin ''status'' PNone = PStr ''complete''"
    by (simp add: dict_get_def)
  have c2: "consume_stream ?bm False [?fin] (False, PNone)
            = ([complete_marker], Inr (False, PNone))"
    using f by (simp add: print_chunk_complete)
  have s1: "replay () (FreshMessage ''hi'') None ''updates'' [[?ev, ?fin]] = ([?ev, ?fin], [])"
    and s2: "replay () (FreshMessage ''hi'') None ''updates'' [[?fin]] = ([?fin], [])"
    by (simp_all add: replay_def)
  from run_sync_loop_raise [where eng=replay and g="()" and inp="FreshMessage ''hi''"
      and c=None and m="''updates''" and w="[[?ev, ?fin]]", OF s1 c1]
    run_sync_loop_done [where eng=replay and g="()" and inp="FreshMessage ''hi''"
      and c=None and m="''updates''" and w="[[?fin]]" and i=True, OF s2 c2]
  show ?thesis
    by simp
qed

text \<open>
  C7, amended: an event of status \<^verbatim>\<open>error\<close> is printed as the red panel; when the library
  prints the panel, the event raises nothing and the loop over the pass goes on with the
  events after it, and when the library refuses the panel, the event raises
  \<^verbatim>\<open>MarkupError\<close> and ends the loop. For an engine whose \<^verbatim>\<open>error\<close> events are all printed,
  these events have no part in the control flow: for the same operator, the loop over the
  engine and the loop over the same engine with the \<^verbatim>\<open>error\<close> events taken out make the
  same calls of the engine and show the same prompts, in the same order, and end in the
  same way, for the loops of both drivers.
\<close>

theorem error_event_is_display_only:
  "(is_error chunk \<and> \<not> bad_markup (error_panel chunk) \<longrightarrow>
      print_chunk bad_markup chunk verbose = ([error_block chunk], None)
      \<and> consume_stream bad_markup verbose (chunk # rest) st
        = (error_block chunk # fst (consume_stream bad_markup verbose rest st),
           snd (consume_stream bad_markup verbose rest st)))
   \<and> (is_error chunk \<and> bad_markup (error_panel chunk) \<longrightarrow>
      print_chunk bad_markup chunk verbose = ([], Some MarkupError)
      \<and> consume_stream bad_markup verbose (chunk # rest) st = ([], Inl MarkupError))
   \<and> (errors_printed bad_markup engine \<longrightarrow>
      control (fst (run_sync_loop bad_markup (without_errors engine) loads graph config
                      interactive verbose stream_mode input_data op w))
        = control (fst (run_sync_loop bad_markup engine loads graph config interactive
                      verbose stream_mode input_data op w))
      \<and> snd (run_sync_loop bad_markup (without_errors engine) loads graph config interactive
                verbose stream_mode input_data op w)
        = snd (run_sync_loop bad_markup engine loads graph config interactive verbose
                stream_mode input_data op w)
      \<and> control (fst (run_async_loop bad_markup (without_errors engine) loads graph config
                      interactive verbose stream_mode input_data op w))
        = control (fst (run_async_loop bad_markup engine loads graph config interactive
                      verbose stream_mode input_data op w))
      \<and> snd (run_async_loop bad_markup (without_errors engine) loads graph config interactive
                verbose stream_mode input_data op w)
        = snd (run_async_loop bad_markup engine loads graph config interactive verbose
                stream_mode input_data op w))"
  using print_chunk_error [where bm=bad_markup and c=chunk and v=verbose]
    consume_stream_error [where bm=bad_markup and c=chunk and v=verbose and rest=rest and st=st]
    print_chunk_error_refused [where bm=bad_markup and c=chunk and v=verbose]
    consume_stream_error_refused [where bm=bad_markup and c=chunk and v=verbose and rest=rest
      and st=st]
    run_sync_loop_without_errors [of bad_markup engine loads graph config interactive verbose
      stream_mode input_data op w]
    run_async_loop_without_errors [of bad_markup engine loads graph config interactive verbose
      stream_mode input_data op w]
  by blast

theorem error_event_is_display_only_witness:
  "is_error [(''status'', PStr ''error''), (''error'', PStr ''boom'')]
   \<and> print_chunk
       (refusing [error_panel [(''status'', PStr ''error''),
                               (''error'', PStr ''No such file: [/tmp/x]'')]])
       [(''status'', PStr ''error''), (''error'', PStr ''boom'')] False
     = ([error_block [(''status'', PStr ''error''), (''error'', PStr ''boom'')]], None)
   \<and> print_chunk
       (refusing [error_panel [(''status'', PStr ''error''),
                               (''error'', PStr ''No such file: [/tmp/x]'')]])
       [(''status'', PStr ''error''), (''error'', PStr ''No such file: [/tmp/x]'')] False
     = ([], Some MarkupError)
   \<and> errors_printed
       (refusing [error_panel [(''status'', PStr ''error''),
                               (''error'', PStr ''No such file: [/tmp/x]'')]])
       (\<lambda>graph input_data config stream_mode w.
          ([[(''status'', PStr ''error''), (''error'', PStr ''boom'')],
            [(''status'', PStr ''complete'')]], w :: unit))
   \<and> snd (run_sync_loop
       (refusing [error_panel [(''status'', PStr ''error''),
                               (''error'', PStr ''No such file: [/tmp/x]'')]])
       (without_errors (\<lambda>graph input_data config stream_mode w.
          ([[(''status'', PStr ''error''), (''error'', PStr ''boom'')],
            [(''status'', PStr ''complete'')]], w :: unit)))
       (\<lambda>s. Inl RecursionError) () (None :: unit option) True False ''updates''
       (FreshMessage ''hi'') \<lparr>choices = [], texts = []\<rparr> ())
     = snd (run_sync_loop
       (refusing [error_panel [(''status'', PStr ''error''),
                               (''error'', PStr ''No such file: [/tmp/x]'')]])
       (\<lambda>graph input_data config stream_mode w.
          ([[(''status'', PStr ''error''), (''error'', PStr ''boom'')],
            [(''status'', PStr ''complete'')]], w :: unit))
       (\<lambda>s. Inl RecursionError) () (None :: unit option) True False ''updates''
       (FreshMessage ''hi'') \<lparr>choices = [], texts = []\<rparr> ())"
proof -
  let ?boom = "[(''status'', PStr ''error''), (''error'', PStr ''boom'')]"
  let ?bad = "[(''status'', PStr ''error''), (''error'', PStr ''No such file: [/tmp/x]'')]"
  let ?bm = "refusing [error_panel ?bad]"
  let ?engine = "\<lambda>graph input_data config stream_mode w.
          ([?boom, [(''status'', PStr ''complete'')]], w :: unit)"
  have e1: "is_error ?boom" and e2: "is_error ?bad"
    by (simp_all add: is_error_def dict_get_def)
  have b1: "\<not> ?bm (error_panel ?boom)" and b2: "?bm (error_panel ?bad)"
    by (simp_all add: refusing_def error_panel_def dict_get_def)
  have p: "errors_printed ?bm ?engine"
    using b1 by (simp add: errors_printed_def is_error_def dict_get_def)
  note shown = error_event_is_display_only
      [where chunk="?boom" and bad_markup="?bm" and verbose=False,
        THEN conjunct1, THEN mp, OF conjI [OF e1 b1], THEN conjunct1]
  note refused = error_event_is_display_only
      [where chunk="?bad" and bad_markup="?bm" and verbose=False,
        THEN conjunct2, THEN conjunct1, THEN mp, OF conjI [OF e2 b2], THEN conjunct1]
  note same = error_event_is_display_only
      [where bad_markup="?bm" and engine="?engine" and loads="\<lambda>s. Inl RecursionError"
        and graph="()" and config="None :: unit option" and interactive=True and verbose=False
        and stream_mode="''updates''" and input_data="FreshMessage ''hi''"
        and op="\<lparr>choices = [], texts = []\<rparr>" and w="()",
        THEN conjunct2, THEN conjunct2, THEN mp, OF p, THEN conjunct2, THEN conjunct1]
  show ?thesis
    using e1 p shown refused same by blast
qed

end
